theory Spec2Isabelle
  imports Complex_Main
begin

section \<open>Data model of the walk engine (walk-mode.service)\<close>

text \<open>
  JavaScript numbers that come from the platform (coordinates, accuracy) are read as reals.
  A number that the engine computes, the distance to a landmark, is a real or NaN: the
  square root of a negative number is NaN and arithmetic on NaN gives NaN. The infinities
  are not represented. Counters and scores are integers. A JavaScript set of strings that
  is only tested for membership is a HOL set.
\<close>

datatype number = NaN | Num real

record GeoLocation =
  latitude :: real
  longitude :: real
  accuracy :: real
  timestamp :: int

text \<open>The platform's \<open>GeolocationPosition\<close>, with \<open>coords\<close> flattened.\<close>

record GeolocationPosition =
  coords_latitude :: real
  coords_longitude :: real
  coords_accuracy :: real
  pos_timestamp :: int

text \<open>\<open>interface WalkLandmark\<close>: the optional members are options.\<close>

record WalkLandmark =
  lm_id :: string
  lm_name :: string
  lm_latitude :: real
  lm_longitude :: real
  lm_distance :: "number option"
  lm_tags :: "string list option"
  lm_matchedInterest :: "string option"

text \<open>
  The object literal built in \<open>getNextLandmark\<close>:
  \<open>{ ...landmark, distance, matchedInterest, interestScore, previouslyVisited }\<close>.
  The spread copies \<open>id\<close>, \<open>name\<close>, \<open>latitude\<close>, \<open>longitude\<close> and \<open>tags\<close>;
  \<open>distance\<close> and \<open>matchedInterest\<close> are overwritten, the last two members are new.
\<close>

record ScoredLandmark =
  sl_id :: string
  sl_name :: string
  sl_latitude :: real
  sl_longitude :: real
  sl_tags :: "string list option"
  sl_distance :: number
  sl_matchedInterest :: "string option"
  interestScore :: int
  previouslyVisited :: bool

text \<open>\<open>interface WalkingTour\<close>, the members the engine reads.\<close>

record WalkingTour =
  tour_id :: string
  tour_cityId :: string
  landmarkIds :: "string list"
  isPremium :: bool
  previewLandmarkCount :: int

text \<open>The private signals and the \<open>watchId\<close> member of \<open>WalkModeService\<close>.\<close>

record WalkState =
  isActive :: bool
  currentLocation :: "GeoLocation option"
  pendingLandmark :: "ScoredLandmark option"
  visitedIds :: "string set"
  skippedIds :: "string set"
  isPaused :: bool
  gpsAccuracyPoor :: bool
  currentCityId :: string
  activeTour :: "WalkingTour option"
  tourIndex :: int
  tourPreviewLimit :: int
  tourPreviewLimitReached :: bool
  watchId :: "int option"

text \<open>
  What the service reads from its surroundings: the platform test
  \<open>isPlatformBrowser\<close>, whether \<open>navigator.geolocation\<close> is there, the handle that
  \<open>watchPosition\<close> hands back, the interest list of \<open>InterestService.getInterests\<close>,
  \<open>AiMemoryService.hasMemory\<close>, and the distance routine. \<open>distanceFn\<close> stands for
  \<open>this.calculateDistance\<close> as the machine evaluates it: the rounding of its
  floating-point trigonometry is not modelled, so the general statements below hold for
  whatever number, NaN included, that routine returns. Its reading over the reals is
  \<open>calculateDistance\<close> below.
\<close>

record Env =
  isBrowser :: bool
  hasGeolocation :: bool
  watchPositionHandle :: int
  getInterests :: "string list"
  hasMemory :: "string \<Rightarrow> bool"
  distanceFn :: "real \<Rightarrow> real \<Rightarrow> real \<Rightarrow> real \<Rightarrow> number"

definition initialWalkState :: WalkState where
  "initialWalkState =
     \<lparr> isActive = False, currentLocation = None, pendingLandmark = None,
       visitedIds = {}, skippedIds = {}, isPaused = False, gpsAccuracyPoor = False,
       currentCityId = ''dallas'', activeTour = None, tourIndex = 0,
       tourPreviewLimit = 0, tourPreviewLimitReached = False, watchId = None \<rparr>"

definition PROXIMITY_THRESHOLD :: real where
  "PROXIMITY_THRESHOLD = 30"

definition POOR_ACCURACY_THRESHOLD :: real where
  "POOR_ACCURACY_THRESHOLD = 50"

definition INTEREST_PRIORITY_RANGE :: real where
  "INTEREST_PRIORITY_RANGE = 200"

section \<open>Distance and interest score\<close>

text \<open>\<open>Math.atan2\<close> over the reals (signed zeros are not distinguished).\<close>

definition atan2 :: "real \<Rightarrow> real \<Rightarrow> real" where
  "atan2 y x =
     (if 0 < x then arctan (y / x)
      else if x < 0 \<and> 0 \<le> y then arctan (y / x) + pi
      else if x < 0 then arctan (y / x) - pi
      else if 0 < y then pi / 2
      else if y < 0 then - (pi / 2)
      else 0)"

text \<open>\<open>Math.sqrt\<close>: NaN below zero.\<close>

definition mathSqrt :: "real \<Rightarrow> number" where
  "mathSqrt x = (if x < 0 then NaN else Num (sqrt x))"

text \<open>
  The Haversine formula of \<open>calculateDistance\<close>, in two parts. \<open>haversineA\<close> is the sum
  \<open>a\<close>, read over the reals, where it lies between 0 and 1.
\<close>

definition haversineA :: "real \<Rightarrow> real \<Rightarrow> real \<Rightarrow> real \<Rightarrow> real" where
  "haversineA lat1 lon1 lat2 lon2 =
     (let phi1 = (lat1 * pi) / 180;
          phi2 = (lat2 * pi) / 180;
          dphi = ((lat2 - lat1) * pi) / 180;
          dlam = ((lon2 - lon1) * pi) / 180
      in sin (dphi / 2) * sin (dphi / 2)
         + cos phi1 * cos phi2 * sin (dlam / 2) * sin (dlam / 2))"

text \<open>
  \<open>distanceFromA\<close> is the rest of the routine, from whatever value the machine has for
  \<open>a\<close>: \<open>c = 2 * Math.atan2(Math.sqrt(a), Math.sqrt(1 - a))\<close> and \<open>R * c\<close>. When a
  square root is NaN, so are \<open>c\<close> and the result.
\<close>

definition distanceFromA :: "real \<Rightarrow> number" where
  "distanceFromA a =
     (let R = 6371000
      in case mathSqrt a of
           NaN \<Rightarrow> NaN
         | Num y \<Rightarrow>
             (case mathSqrt (1 - a) of
                NaN \<Rightarrow> NaN
              | Num x \<Rightarrow> Num (R * (2 * atan2 y x))))"

definition calculateDistance :: "real \<Rightarrow> real \<Rightarrow> real \<Rightarrow> real \<Rightarrow> number" where
  "calculateDistance lat1 lon1 lat2 lon2 = distanceFromA (haversineA lat1 lon1 lat2 lon2)"

text \<open>
  The \<open>for (const interest of userInterests)\<close> loop of \<open>getInterestMatchScore\<close>:
  the first interest found among the tags decides; \<open>primary\<close> is \<open>userInterests[0]\<close>.
\<close>

fun interestLoop :: "string \<Rightarrow> string list \<Rightarrow> string list \<Rightarrow> int \<times> string option" where
  "interestLoop primary ts [] = (0, None)"
| "interestLoop primary ts (interest # rest) =
     (if interest \<in> set ts
      then (if interest = primary then 2 else 1, Some interest)
      else interestLoop primary ts rest)"

definition getInterestMatchScore :: "Env \<Rightarrow> string list option \<Rightarrow> int \<times> string option" where
  "getInterestMatchScore env tags =
     (case tags of
        None \<Rightarrow> (0, None)
      | Some ts \<Rightarrow>
          if ts = [] then (0, None)
          else (case getInterests env of
                  [] \<Rightarrow> (0, None)
                | primary # _ \<Rightarrow> interestLoop primary ts (getInterests env)))"

section \<open>Lifecycle: start, stop, pause, resume, location updates\<close>

text \<open>\<open>startWalk\<close> returns its boolean together with the new state.\<close>

definition startWalk :: "Env \<Rightarrow> WalkState \<Rightarrow> bool \<times> WalkState" where
  "startWalk env s =
     (if \<not> isBrowser env \<or> \<not> hasGeolocation env then (False, s)
      else (True,
            s\<lparr> isActive := True, isPaused := False, visitedIds := {}, skippedIds := {},
               pendingLandmark := None, watchId := Some (watchPositionHandle env) \<rparr>))"

definition stopWalk :: "Env \<Rightarrow> WalkState \<Rightarrow> WalkState" where
  "stopWalk env s =
     (let s1 = s\<lparr> isActive := False, pendingLandmark := None \<rparr>
      in if watchId s1 \<noteq> None \<and> isBrowser env then s1\<lparr> watchId := None \<rparr> else s1)"

definition pauseWalk :: "WalkState \<Rightarrow> WalkState" where
  "pauseWalk s = s\<lparr> isPaused := True \<rparr>"

definition resumeWalk :: "WalkState \<Rightarrow> WalkState" where
  "resumeWalk s = s\<lparr> isPaused := False \<rparr>"

definition handlePositionUpdate :: "GeolocationPosition \<Rightarrow> WalkState \<Rightarrow> WalkState" where
  "handlePositionUpdate position s =
     (let location = \<lparr> latitude = coords_latitude position,
                       longitude = coords_longitude position,
                       accuracy = coords_accuracy position,
                       timestamp = pos_timestamp position \<rparr>;
          s1 = s\<lparr> currentLocation := Some location \<rparr>
      in if accuracy location > POOR_ACCURACY_THRESHOLD
         then s1\<lparr> gpsAccuracyPoor := True, isPaused := True \<rparr>
         else (let s2 = s1\<lparr> gpsAccuracyPoor := False \<rparr>
               in if isPaused s2 then s2\<lparr> isPaused := False \<rparr> else s2))"

definition handlePositionError :: "WalkState \<Rightarrow> WalkState" where
  "handlePositionError s = s\<lparr> gpsAccuracyPoor := True, isPaused := True \<rparr>"

section \<open>Candidate selection\<close>

text \<open>
  \<open>x || 0\<close> on a computed number: zero and NaN are falsy and become zero, so the result
  is a real.
\<close>

definition orZero :: "number \<Rightarrow> real" where
  "orZero x = (case x of NaN \<Rightarrow> 0 | Num r \<Rightarrow> if r = 0 then 0 else r)"

text \<open>The same on the interest score, an integer.\<close>

definition scoreOrZero :: "int \<Rightarrow> int" where
  "scoreOrZero n = (if n = 0 then 0 else n)"

text \<open>\<open>!x\<close> on a computed number, and \<open>x <= y\<close>, which is false for NaN.\<close>

definition falsy :: "number \<Rightarrow> bool" where
  "falsy x = (case x of NaN \<Rightarrow> True | Num r \<Rightarrow> r = 0)"

definition lessEq :: "number \<Rightarrow> real \<Rightarrow> bool" where
  "lessEq x y = (case x of NaN \<Rightarrow> False | Num r \<Rightarrow> r \<le> y)"

text \<open>
  The comparator handed to \<open>withScores.sort\<close>. Every distance in it has passed through
  \<open>|| 0\<close>, so its value is never NaN.
\<close>

definition compareScored :: "ScoredLandmark \<Rightarrow> ScoredLandmark \<Rightarrow> real" where
  "compareScored a b =
     (if previouslyVisited a \<and> \<not> previouslyVisited b then 1
      else if \<not> previouslyVisited a \<and> previouslyVisited b then - 1
      else (let aInRange = (orZero (sl_distance a) \<le> INTEREST_PRIORITY_RANGE);
                bInRange = (orZero (sl_distance b) \<le> INTEREST_PRIORITY_RANGE);
                scoreDiff = scoreOrZero (interestScore b) - scoreOrZero (interestScore a)
            in if aInRange \<and> bInRange \<and> scoreDiff \<noteq> 0 then real_of_int scoreDiff
               else orZero (sl_distance a) - orZero (sl_distance b)))"

text \<open>
  \<open>Array.prototype.sort\<close> with a comparator: ECMAScript requires a stable sort, and for
  a consistent comparator the result is determined. It is modelled as a stable insertion
  sort: an element goes in front of the first one it does not compare greater than.
\<close>

fun insertBy :: "('a \<Rightarrow> 'a \<Rightarrow> real) \<Rightarrow> 'a \<Rightarrow> 'a list \<Rightarrow> 'a list" where
  "insertBy cmp x [] = [x]"
| "insertBy cmp x (y # ys) =
     (if cmp x y \<le> 0 then x # y # ys else y # insertBy cmp x ys)"

definition sortBy :: "('a \<Rightarrow> 'a \<Rightarrow> real) \<Rightarrow> 'a list \<Rightarrow> 'a list" where
  "sortBy cmp xs = foldr (insertBy cmp) xs []"

text \<open>The callback of \<open>available.map\<close>.\<close>

definition withScore :: "Env \<Rightarrow> GeoLocation \<Rightarrow> WalkLandmark \<Rightarrow> ScoredLandmark" where
  "withScore env location landmark =
     (let distance = distanceFn env (latitude location) (longitude location)
                       (lm_latitude landmark) (lm_longitude landmark);
          sm = getInterestMatchScore env (lm_tags landmark);
          hasMem = hasMemory env (lm_id landmark)
      in \<lparr> sl_id = lm_id landmark, sl_name = lm_name landmark,
           sl_latitude = lm_latitude landmark, sl_longitude = lm_longitude landmark,
           sl_tags = lm_tags landmark, sl_distance = distance,
           sl_matchedInterest = snd sm, interestScore = fst sm,
           previouslyVisited = hasMem \<rparr>)"

definition available :: "WalkState \<Rightarrow> WalkLandmark list \<Rightarrow> WalkLandmark list" where
  "available s landmarks =
     filter (\<lambda>l. lm_id l \<notin> visitedIds s \<and> lm_id l \<notin> skippedIds s) landmarks"

definition withScores :: "Env \<Rightarrow> WalkState \<Rightarrow> GeoLocation \<Rightarrow> WalkLandmark list \<Rightarrow> ScoredLandmark list" where
  "withScores env s location landmarks = map (withScore env location) (available s landmarks)"

text \<open>\<open>withScores[0]\<close> after the sort; the array is not empty at that point.\<close>

definition getNextLandmark :: "Env \<Rightarrow> WalkState \<Rightarrow> WalkLandmark list \<Rightarrow> ScoredLandmark option" where
  "getNextLandmark env s landmarks =
     (case currentLocation s of
        None \<Rightarrow> None
      | Some location \<Rightarrow>
          if available s landmarks = [] then None
          else (case sortBy compareScored (withScores env s location landmarks) of
                  [] \<Rightarrow> None
                | first # _ \<Rightarrow> Some first))"

text \<open>
  \<open>checkProximity\<close> returns the landmark it surfaced, if any, and the new state.
  \<open>!nearest.distance\<close> is true for a distance of zero and for NaN.
\<close>

definition checkProximity ::
  "Env \<Rightarrow> WalkState \<Rightarrow> WalkLandmark list \<Rightarrow> ScoredLandmark option \<times> WalkState" where
  "checkProximity env s landmarks =
     (if isPaused s \<or> pendingLandmark s \<noteq> None then (None, s)
      else (case getNextLandmark env s landmarks of
              None \<Rightarrow> (None, s)
            | Some nearest \<Rightarrow>
                if falsy (sl_distance nearest) then (None, s)
                else if lessEq (sl_distance nearest) PROXIMITY_THRESHOLD
                then (Some nearest, s\<lparr> pendingLandmark := Some nearest \<rparr>)
                else (None, s)))"

section \<open>Explore, skip, visited marks and the tour overlay\<close>

text \<open>\<open>xs[i]\<close> on an array: \<open>undefined\<close> outside the bounds.\<close>

definition elemAt :: "'a list \<Rightarrow> int \<Rightarrow> 'a option" where
  "elemAt xs i = (if 0 \<le> i \<and> i < int (length xs) then Some (xs ! nat i) else None)"

definition advanceTour :: "string \<Rightarrow> WalkState \<Rightarrow> WalkState" where
  "advanceTour landmarkId s =
     (case activeTour s of
        None \<Rightarrow> s
      | Some tour \<Rightarrow>
          (let currentIndex = tourIndex s;
               expectedId = elemAt (landmarkIds tour) currentIndex
           in if Some landmarkId = expectedId then s\<lparr> tourIndex := currentIndex + 1 \<rparr>
              else s))"

definition markVisited :: "string \<Rightarrow> WalkState \<Rightarrow> WalkState" where
  "markVisited ident s =
     (let s1 = s\<lparr> visitedIds := insert ident (visitedIds s) \<rparr>
      in if activeTour s1 \<noteq> None then advanceTour ident s1 else s1)"

definition explorePending :: "WalkState \<Rightarrow> ScoredLandmark option \<times> WalkState" where
  "explorePending s =
     (case pendingLandmark s of
        None \<Rightarrow> (None, s)
      | Some pending \<Rightarrow>
          (Some pending, (markVisited (sl_id pending) s)\<lparr> pendingLandmark := None \<rparr>))"

definition skipPending :: "WalkState \<Rightarrow> WalkState" where
  "skipPending s =
     (case pendingLandmark s of
        None \<Rightarrow> s
      | Some pending \<Rightarrow>
          s\<lparr> skippedIds := insert (sl_id pending) (skippedIds s), pendingLandmark := None \<rparr>)"

definition startTourWalk :: "Env \<Rightarrow> WalkingTour \<Rightarrow> bool \<Rightarrow> WalkState \<Rightarrow> bool \<times> WalkState" where
  "startTourWalk env tour isPreviewMode s =
     (let s1 = s\<lparr> activeTour := Some tour, tourIndex := 0, tourPreviewLimitReached := False \<rparr>;
          s2 = (if isPreviewMode then s1\<lparr> tourPreviewLimit := previewLandmarkCount tour \<rparr>
                else s1\<lparr> tourPreviewLimit := int (length (landmarkIds tour)) \<rparr>)
      in startWalk env s2)"

definition getNextTourLandmark ::
  "WalkState \<Rightarrow> WalkLandmark list \<Rightarrow> WalkLandmark option \<times> WalkState" where
  "getNextTourLandmark s landmarks =
     (case activeTour s of
        None \<Rightarrow> (None, s)
      | Some tour \<Rightarrow>
          (let currentIndex = tourIndex s
           in if currentIndex \<ge> int (length (landmarkIds tour)) then (None, s)
              else if currentIndex \<ge> tourPreviewLimit s
              then (None, s\<lparr> tourPreviewLimitReached := True \<rparr>)
              else (case elemAt (landmarkIds tour) currentIndex of
                      None \<Rightarrow> (None, s)
                    | Some targetId \<Rightarrow> (find (\<lambda>l. lm_id l = targetId) landmarks, s))))"

definition endTourMode :: "WalkState \<Rightarrow> WalkState" where
  "endTourMode s =
     s\<lparr> activeTour := None, tourIndex := 0, tourPreviewLimit := 0,
        tourPreviewLimitReached := False \<rparr>"

definition upgradeTourAccess :: "WalkState \<Rightarrow> WalkState" where
  "upgradeTourAccess s =
     (case activeTour s of
        None \<Rightarrow> s
      | Some tour \<Rightarrow>
          s\<lparr> tourPreviewLimit := int (length (landmarkIds tour)),
             tourPreviewLimitReached := False \<rparr>)"

section \<open>City change\<close>

definition onCityChanged :: "Env \<Rightarrow> string \<Rightarrow> WalkState \<Rightarrow> WalkState" where
  "onCityChanged env newCityId s =
     (let s1 = (if isActive s then stopWalk env s else s)
      in s1\<lparr> visitedIds := {}, skippedIds := {}, pendingLandmark := None,
            activeTour := None, tourIndex := 0, tourPreviewLimitReached := False,
            currentCityId := newCityId \<rparr>)"

text \<open>
  The \<open>effect\<close> of the constructor: it runs when \<open>cityService.activeCity()\<close> changes, and
  calls \<open>onCityChanged\<close> when there is an active city whose id differs from the stored one.
\<close>

definition cityEffect :: "Env \<Rightarrow> string option \<Rightarrow> WalkState \<Rightarrow> WalkState" where
  "cityEffect env activeCityId s =
     (case activeCityId of
        None \<Rightarrow> s
      | Some cid \<Rightarrow> if cid \<noteq> currentCityId s then onCityChanged env cid s else s)"

section \<open>The per-day session (session.service)\<close>

text \<open>
  The two sets of \<open>SessionService\<close> are written to storage as arrays, so they are kept
  as JavaScript keeps a \<open>Set\<close>: a list without repetitions in insertion order.
\<close>

definition setAdd :: "'a \<Rightarrow> 'a list \<Rightarrow> 'a list" where
  "setAdd x xs = (if x \<in> set xs then xs else xs @ [x])"

definition setDelete :: "'a \<Rightarrow> 'a list \<Rightarrow> 'a list" where
  "setDelete x xs = filter (\<lambda>y. y \<noteq> x) xs"

definition newSet :: "'a list \<Rightarrow> 'a list" where
  "newSet xs = fold setAdd xs []"

record SessionData =
  sd_date :: string
  sd_visitedIds :: "string list"
  sd_skippedIds :: "string list"

text \<open>
  What \<open>localStorage.getItem(STORAGE_KEY)\<close> followed by \<open>JSON.parse\<close> can give: no
  item, text on which parsing or reading the members throws, or a well-formed record.
\<close>

datatype StoredItem = Missing | Unparsable | Parsed SessionData

record SessionService =
  ss_visitedIds :: "string list"
  ss_skippedIds :: "string list"
  ss_storage :: StoredItem

text \<open>\<open>getTodayKey()\<close> is the argument \<open>today\<close>; \<open>browser\<close> is \<open>isBrowser\<close>.\<close>

definition saveSession :: "bool \<Rightarrow> string \<Rightarrow> SessionService \<Rightarrow> SessionService" where
  "saveSession browser today s =
     (if \<not> browser then s
      else s\<lparr> ss_storage := Parsed \<lparr> sd_date = today, sd_visitedIds = ss_visitedIds s,
                                     sd_skippedIds = ss_skippedIds s \<rparr> \<rparr>)"

definition resetSession :: "bool \<Rightarrow> string \<Rightarrow> SessionService \<Rightarrow> SessionService" where
  "resetSession browser today s =
     saveSession browser today (s\<lparr> ss_visitedIds := [], ss_skippedIds := [] \<rparr>)"

definition loadSession :: "bool \<Rightarrow> string \<Rightarrow> SessionService \<Rightarrow> SessionService" where
  "loadSession browser today s =
     (case ss_storage s of
        Missing \<Rightarrow> s
      | Unparsable \<Rightarrow> resetSession browser today s
      | Parsed d \<Rightarrow>
          if sd_date d \<noteq> today then resetSession browser today s
          else s\<lparr> ss_visitedIds := newSet (sd_visitedIds d),
                  ss_skippedIds := newSet (sd_skippedIds d) \<rparr>)"

text \<open>The constructor: empty sets, then \<open>loadSession\<close> in a browser.\<close>

definition newSessionService :: "bool \<Rightarrow> string \<Rightarrow> StoredItem \<Rightarrow> SessionService" where
  "newSessionService browser today item =
     (let s = \<lparr> ss_visitedIds = [], ss_skippedIds = [], ss_storage = item \<rparr>
      in if browser then loadSession browser today s else s)"

definition sessionMarkVisited :: "bool \<Rightarrow> string \<Rightarrow> string \<Rightarrow> SessionService \<Rightarrow> SessionService" where
  "sessionMarkVisited browser today ident s =
     saveSession browser today
       (s\<lparr> ss_visitedIds := setAdd ident (ss_visitedIds s),
           ss_skippedIds := setDelete ident (ss_skippedIds s) \<rparr>)"

definition sessionMarkSkipped :: "bool \<Rightarrow> string \<Rightarrow> string \<Rightarrow> SessionService \<Rightarrow> SessionService" where
  "sessionMarkSkipped browser today ident s =
     saveSession browser today (s\<lparr> ss_skippedIds := setAdd ident (ss_skippedIds s) \<rparr>)"

definition hasVisited :: "SessionService \<Rightarrow> string \<Rightarrow> bool" where
  "hasVisited s ident = (ident \<in> set (ss_visitedIds s))"

definition hasSkipped :: "SessionService \<Rightarrow> string \<Rightarrow> bool" where
  "hasSkipped s ident = (ident \<in> set (ss_skippedIds s))"

definition shouldShow :: "SessionService \<Rightarrow> string \<Rightarrow> bool" where
  "shouldShow s ident = (\<not> hasVisited s ident \<and> \<not> hasSkipped s ident)"

section \<open>Tour progress (walking-tour.service)\<close>

record TourProgress =
  tp_tourId :: string
  currentLandmarkIndex :: int
  visitedLandmarkIds :: "string list"
  startedAt :: string
  completedAt :: "string option"
  isPreviewMode :: bool

record TourService =
  ts_activeTour :: "WalkingTour option"
  ts_progress :: "TourProgress option"
  ts_previewLimitReached :: bool
  ts_saved :: "TourProgress option"

text \<open>
  \<open>markLandmarkVisited\<close>; \<open>now\<close> is \<open>new Date().toISOString()\<close>, the analytics call is
  left out, \<open>saveProgress\<close> writes only in a browser.
\<close>

definition markLandmarkVisited :: "bool \<Rightarrow> string \<Rightarrow> string \<Rightarrow> TourService \<Rightarrow> TourService" where
  "markLandmarkVisited browser now landmarkId s =
     (case (ts_activeTour s, ts_progress s) of
        (Some tour, Some progress) \<Rightarrow>
          if elemAt (landmarkIds tour) (currentLandmarkIndex progress) \<noteq> Some landmarkId then s
          else (let updated = progress\<lparr> currentLandmarkIndex := currentLandmarkIndex progress + 1,
                                        visitedLandmarkIds := visitedLandmarkIds progress @ [landmarkId] \<rparr>;
                    updated' = (if currentLandmarkIndex updated \<ge> int (length (landmarkIds tour))
                                then updated\<lparr> completedAt := Some now \<rparr> else updated);
                    s1 = s\<lparr> ts_progress := Some updated' \<rparr>
                in if browser then s1\<lparr> ts_saved := Some updated' \<rparr> else s1)
      | _ \<Rightarrow> s)"

section \<open>The component that drives the engine (app.ts)\<close>

text \<open>The catalogue's \<open>Landmark\<close>, the members the component copies.\<close>

record Landmark =
  l_id :: string
  l_name :: string
  l_lat :: real
  l_lng :: real

record AppState =
  walk :: WalkState
  session :: SessionService

definition toWalkLandmark :: "Landmark \<Rightarrow> WalkLandmark" where
  "toWalkLandmark l =
     \<lparr> lm_id = l_id l, lm_name = l_name l, lm_latitude = l_lat l, lm_longitude = l_lng l,
       lm_distance = None, lm_tags = None, lm_matchedInterest = None \<rparr>"

text \<open>The callback of \<open>setInterval\<close> in \<open>startProximityChecking\<close>.\<close>

definition proximityTick :: "Env \<Rightarrow> Landmark list \<Rightarrow> AppState \<Rightarrow> AppState" where
  "proximityTick env landmarks app =
     (if \<not> isActive (walk app) \<or> isPaused (walk app) then app
      else (let walkLandmarks =
                  map toWalkLandmark (filter (\<lambda>l. shouldShow (session app) (l_id l)) landmarks)
            in app\<lparr> walk := snd (checkProximity env (walk app) walkLandmarks) \<rparr>))"

definition onExplorePending :: "Env \<Rightarrow> string \<Rightarrow> AppState \<Rightarrow> AppState" where
  "onExplorePending env today app =
     (case explorePending (walk app) of
        (None, w) \<Rightarrow> app\<lparr> walk := w \<rparr>
      | (Some pending, w) \<Rightarrow>
          app\<lparr> walk := w,
               session := sessionMarkVisited (isBrowser env) today (sl_id pending) (session app) \<rparr>)"

definition onSkipPending :: "Env \<Rightarrow> string \<Rightarrow> AppState \<Rightarrow> AppState" where
  "onSkipPending env today app =
     (let app1 = (case pendingLandmark (walk app) of
                    None \<Rightarrow> app
                  | Some pending \<Rightarrow>
                      app\<lparr> session := sessionMarkSkipped (isBrowser env) today (sl_id pending)
                                         (session app) \<rparr>)
      in app1\<lparr> walk := skipPending (walk app1) \<rparr>)"

text \<open>
  A change of the active city reaches the engine through \<open>cityEffect\<close>; neither the effect
  nor \<open>onCitySelected\<close> calls the session service.
\<close>

definition cityChanged :: "Env \<Rightarrow> string \<Rightarrow> AppState \<Rightarrow> AppState" where
  "cityChanged env newCityId app = app\<lparr> walk := cityEffect env (Some newCityId) (walk app) \<rparr>"

section \<open>Event sequences\<close>

text \<open>
  The public methods of the walk engine and the callbacks it registers, as events; a
  reachable state of the engine is \<open>run env evs initialWalkState\<close>. One \<open>Env\<close> gives
  the collaborators' answers for a whole run.
\<close>

datatype Event =
    StartWalk
  | StopWalk
  | PauseWalk
  | ResumeWalk
  | PositionUpdate GeolocationPosition
  | PositionError
  | CheckProximity "WalkLandmark list"
  | ExplorePending
  | SkipPending
  | MarkVisited string
  | StartTourWalk WalkingTour bool
  | GetNextTourLandmark "WalkLandmark list"
  | EndTourMode
  | UpgradeTourAccess
  | CityEffect "string option"

fun step :: "Env \<Rightarrow> Event \<Rightarrow> WalkState \<Rightarrow> WalkState" where
  "step env StartWalk s = snd (startWalk env s)"
| "step env StopWalk s = stopWalk env s"
| "step env PauseWalk s = pauseWalk s"
| "step env ResumeWalk s = resumeWalk s"
| "step env (PositionUpdate position) s = handlePositionUpdate position s"
| "step env PositionError s = handlePositionError s"
| "step env (CheckProximity landmarks) s = snd (checkProximity env s landmarks)"
| "step env ExplorePending s = snd (explorePending s)"
| "step env SkipPending s = skipPending s"
| "step env (MarkVisited ident) s = markVisited ident s"
| "step env (StartTourWalk tour preview) s = snd (startTourWalk env tour preview s)"
| "step env (GetNextTourLandmark landmarks) s = snd (getNextTourLandmark s landmarks)"
| "step env EndTourMode s = endTourMode s"
| "step env UpgradeTourAccess s = upgradeTourAccess s"
| "step env (CityEffect activeCityId) s = cityEffect env activeCityId s"

definition run :: "Env \<Rightarrow> Event list \<Rightarrow> WalkState \<Rightarrow> WalkState" where
  "run env evs s = fold (step env) evs s"

text \<open>The events that create or destroy the tour state; all others keep the tour.\<close>

fun keepsTour :: "Event \<Rightarrow> bool" where
  "keepsTour (StartTourWalk tour preview) = False"
| "keepsTour EndTourMode = False"
| "keepsTour (CityEffect activeCityId) = False"
| "keepsTour ev = True"

text \<open>
  The handlers of the component, as events: walk-mode button, the timer with the catalogue
  it reads, the two prompt buttons with \<open>getTodayKey()\<close> at that time, the visibility
  listener, the location callbacks, a city selection, and the start of a tour with whether
  the user is premium. Analytics, the explanation sheet and the AR view are left out.
\<close>

datatype AppEvent =
    StartWalkMode
  | StopWalkMode
  | Tick "Landmark list"
  | Explore string
  | Skip string
  | Hidden
  | Visible
  | Position GeolocationPosition
  | PositionFailed
  | CitySelected string
  | StartTour WalkingTour bool

fun appStep :: "Env \<Rightarrow> AppEvent \<Rightarrow> AppState \<Rightarrow> AppState" where
  "appStep env StartWalkMode app = app\<lparr> walk := snd (startWalk env (walk app)) \<rparr>"
| "appStep env StopWalkMode app = app\<lparr> walk := stopWalk env (walk app) \<rparr>"
| "appStep env (Tick landmarks) app = proximityTick env landmarks app"
| "appStep env (Explore today) app = onExplorePending env today app"
| "appStep env (Skip today) app = onSkipPending env today app"
| "appStep env Hidden app =
     (if isActive (walk app) then app\<lparr> walk := pauseWalk (walk app) \<rparr> else app)"
| "appStep env Visible app =
     (if isActive (walk app) then app\<lparr> walk := resumeWalk (walk app) \<rparr> else app)"
| "appStep env (Position position) app = app\<lparr> walk := handlePositionUpdate position (walk app) \<rparr>"
| "appStep env PositionFailed app = app\<lparr> walk := handlePositionError (walk app) \<rparr>"
| "appStep env (CitySelected newCityId) app = cityChanged env newCityId app"
| "appStep env (StartTour tour userIsPremium) app =
     app\<lparr> walk := snd (startTourWalk env tour (isPremium tour \<and> \<not> userIsPremium) (walk app)) \<rparr>"

definition appRun :: "Env \<Rightarrow> AppEvent list \<Rightarrow> AppState \<Rightarrow> AppState" where
  "appRun env evs app = fold (appStep env) evs app"

text \<open>The component at start-up: a fresh engine and the session loaded from storage.\<close>

definition initialApp :: "Env \<Rightarrow> string \<Rightarrow> StoredItem \<Rightarrow> AppState" where
  "initialApp env today item =
     \<lparr> walk = initialWalkState, session = newSessionService (isBrowser env) today item \<rparr>"

section \<open>Concrete inputs\<close>

text \<open>
  The degrees of latitude that make \<open>d\<close> metres on a meridian of the sphere of
  \<open>calculateDistance\<close>.
\<close>

definition metresNorth :: "real \<Rightarrow> real" where
  "metresNorth d = d * 180 / (pi * 6371000)"

definition demoEnv :: Env where
  "demoEnv =
     \<lparr> isBrowser = True, hasGeolocation = True, watchPositionHandle = 1,
       getInterests = [''history'', ''food''], hasMemory = (\<lambda>i. i = ''seen''),
       distanceFn = calculateDistance \<rparr>"

definition fixAtOrigin :: "real \<Rightarrow> GeolocationPosition" where
  "fixAtOrigin acc =
     \<lparr> coords_latitude = 0, coords_longitude = 0, coords_accuracy = acc, pos_timestamp = 0 \<rparr>"

definition landmarkNorth :: "string \<Rightarrow> real \<Rightarrow> string list option \<Rightarrow> WalkLandmark" where
  "landmarkNorth ident d ts =
     \<lparr> lm_id = ident, lm_name = ident, lm_latitude = metresNorth d, lm_longitude = 0,
       lm_distance = None, lm_tags = ts, lm_matchedInterest = None \<rparr>"

definition walking :: WalkState where
  "walking = run demoEnv [StartWalk, PositionUpdate (fixAtOrigin 10)] initialWalkState"

text \<open>
  The user at latitude 8 on the prime meridian, a landmark 111 m to the north and one at the
  antipode. There the machine's sum \<open>a\<close> is the squared sine plus the squared cosine of 8 degrees, which
  double-precision arithmetic rounds to 1.0000000000000002, one unit in the last place above 1;
  \<open>doubleEnv\<close> gives the distance routine that value at this pair of points and the reading
  over the reals elsewhere.
\<close>

definition doubleEnv :: Env where
  "doubleEnv =
     demoEnv\<lparr> distanceFn :=
       (\<lambda>lat1 lon1 lat2 lon2.
          if lat1 = 8 \<and> lon1 = 0 \<and> lat2 = - 8 \<and> lon2 = 180
          then distanceFromA (1 + 1 / 2 ^ 52)
          else calculateDistance lat1 lon1 lat2 lon2) \<rparr>"

definition atEight :: GeoLocation where
  "atEight = \<lparr> latitude = 8, longitude = 0, accuracy = 10, timestamp = 0 \<rparr>"

definition walkingAtEight :: WalkState where
  "walkingAtEight =
     run doubleEnv
       [StartWalk,
        PositionUpdate \<lparr> coords_latitude = 8, coords_longitude = 0, coords_accuracy = 10,
                         pos_timestamp = 0 \<rparr>]
       initialWalkState"

definition landmarkAt :: "string \<Rightarrow> real \<Rightarrow> real \<Rightarrow> WalkLandmark" where
  "landmarkAt ident lat lon =
     \<lparr> lm_id = ident, lm_name = ident, lm_latitude = lat, lm_longitude = lon,
       lm_distance = None, lm_tags = None, lm_matchedInterest = None \<rparr>"

definition origin :: GeoLocation where
  "origin = \<lparr> latitude = 0, longitude = 0, accuracy = 10, timestamp = 0 \<rparr>"

definition demoTour :: WalkingTour where
  "demoTour =
     \<lparr> tour_id = ''t1'', tour_cityId = ''dallas'', landmarkIds = [''A'', ''B'', ''C''],
       isPremium = True, previewLandmarkCount = 2 \<rparr>"

text \<open>A landmark 20 m ahead has been surfaced; then it has been explored.\<close>

definition prompting :: WalkState where
  "prompting = step demoEnv (CheckProximity [landmarkNorth ''A'' 20 None]) walking"

definition explored :: WalkState where
  "explored = step demoEnv ExplorePending prompting"

text \<open>A tour has been started in preview mode.\<close>

definition touring :: WalkState where
  "touring = run demoEnv [StartTourWalk demoTour True, PositionUpdate (fixAtOrigin 10)] initialWalkState"

definition demoProgress :: TourProgress where
  "demoProgress =
     \<lparr> tp_tourId = ''t1'', currentLandmarkIndex = 0, visitedLandmarkIds = [],
       startedAt = ''2026-01-01T10:00:00.000Z'', completedAt = None, isPreviewMode = True \<rparr>"

definition demoTourService :: TourService where
  "demoTourService =
     \<lparr> ts_activeTour = Some demoTour, ts_progress = Some demoProgress,
       ts_previewLimitReached = False, ts_saved = None \<rparr>"

text \<open>
  The component after a walk in which the landmark 20 m ahead was surfaced by the timer and
  explored.
\<close>

definition landmarkA :: Landmark where
  "landmarkA = \<lparr> l_id = ''A'', l_name = ''A'', l_lat = metresNorth 20, l_lng = 0 \<rparr>"

definition exploredApp :: AppState where
  "exploredApp =
     appRun demoEnv
       [StartWalkMode, Position (fixAtOrigin 10), Tick [landmarkA], Explore ''2026-01-01'']
       (initialApp demoEnv ''2026-01-01'' Missing)"

text \<open>
  The invariant of the component's handlers: the two sets of the session service are
  disjoint, so are the two sets of the engine, and a pending landmark is in none of the four.
\<close>

definition appInv :: "AppState \<Rightarrow> bool" where
  "appInv a =
     (set (ss_visitedIds (session a)) \<inter> set (ss_skippedIds (session a)) = {}
      \<and> visitedIds (walk a) \<inter> skippedIds (walk a) = {}
      \<and> (\<forall>p. pendingLandmark (walk a) = Some p \<longrightarrow>
             sl_id p \<notin> set (ss_visitedIds (session a)) \<and> sl_id p \<notin> set (ss_skippedIds (session a))
             \<and> sl_id p \<notin> visitedIds (walk a) \<and> sl_id p \<notin> skippedIds (walk a)))"

section \<open>The distance routine on a meridian\<close>

text \<open>
  On a meridian the Haversine formula gives the length of the arc: a point
  \<open>metresNorth d\<close> degrees north of the equator is \<open>d\<close> metres away.
\<close>

lemma calculateDistance_same: "calculateDistance lat lon lat lon = Num 0"
  by (simp add: calculateDistance_def haversineA_def distanceFromA_def mathSqrt_def atan2_def)

lemma atan2_sin_cos: 
  assumes "0 \<le> x" "x < pi / 2"
  shows "atan2 (sqrt (sin x * sin x)) (sqrt (1 - sin x * sin x)) = x"
proof -
  have s: "0 \<le> sin x" using assms by (simp add: sin_ge_zero)
  have c: "0 < cos x" using assms by (simp add: cos_gt_zero_pi)
  have "1 - sin x * sin x = cos x * cos x"
    using sin_cos_squared_add[of x] by (simp add: power2_eq_square algebra_simps)
  then have c2: "sqrt (1 - sin x * sin x) = cos x" using c by simp
  have "arctan (sin x / cos x) = x"
    using arctan_tan[of x] assms by (simp add: tan_def)
  then show ?thesis using c s by (simp add: atan2_def c2)
qed

lemma distanceFromA_sin:
  assumes "0 \<le> x" "x < pi / 2"
  shows "distanceFromA (sin x * sin x) = Num (12742000 * x)"
proof -
  have "1 - sin x * sin x = cos x * cos x"
    using sin_cos_squared_add[of x] by (simp add: power2_eq_square algebra_simps)
  then have n: "\<not> 1 - sin x * sin x < 0" by simp
  have m: "\<not> sin x * sin x < 0" by simp
  have "distanceFromA (sin x * sin x)
        = Num (6371000 * (2 * atan2 (sqrt (sin x * sin x)) (sqrt (1 - sin x * sin x))))"
    using n m by (simp add: distanceFromA_def mathSqrt_def del: real_sqrt_abs2 real_sqrt_mult_self)
  also have "\<dots> = Num (12742000 * x)" by (simp only: atan2_sin_cos[OF assms]) simp
  finally show ?thesis .
qed

lemma calculateDistance_meridian:
  assumes "0 \<le> d" "d \<le> 1000000"
  shows "calculateDistance lat lon (lat + metresNorth d) lon = Num d"
proof -
  let ?x = "d / 12742000"
  have x: "0 \<le> ?x" "?x < pi / 2" using assms pi_ge_two by auto
  have e: "metresNorth d * pi / 360 = ?x" by (simp add: metresNorth_def)
  have "haversineA lat lon (lat + metresNorth d) lon = sin ?x * sin ?x"
    by (simp add: haversineA_def Let_def e)
  then show ?thesis using distanceFromA_sin[OF x] by (simp add: calculateDistance_def)
qed

lemma calculateDistance_north:
  assumes "0 \<le> d" "d \<le> 1000000"
  shows "calculateDistance 0 lon (metresNorth d) lon = Num d"
  using calculateDistance_meridian[OF assms, of 0 lon] by simp

lemma distanceFromA_above_one: "1 < a \<Longrightarrow> distanceFromA a = NaN"
  by (simp add: distanceFromA_def mathSqrt_def)

lemma haversineA_antipode: "haversineA 8 0 (- 8) 180 = 1"
proof -
  have "haversineA 8 0 (- 8) 180
        = sin (2 * pi / 45) * sin (2 * pi / 45) + cos (2 * pi / 45) * cos (2 * pi / 45)"
    by (simp add: haversineA_def Let_def)
  also have "\<dots> = 1" using sin_cos_squared_add[of "2 * pi / 45"] by (simp add: power2_eq_square)
  finally show ?thesis .
qed

lemma calculateDistance_antipode: "calculateDistance 8 0 (- 8) 180 = Num (6371000 * pi)"
  by (simp add: calculateDistance_def haversineA_antipode distanceFromA_def mathSqrt_def atan2_def)

section \<open>The comparator is consistent; the sorted array starts with a minimum\<close>

text \<open>
  On the distances as it reads them, through \<open>|| 0\<close>, the comparator is total and
  transitive, and negative one way exactly when positive the other way, so every conforming
  sort puts a minimum first. \<open>getNextLandmark_ranked\<close> says what that minimum is: a
  candidate whose id is neither visited nor skipped, with no such candidate before it in the
  three tiers; a distance of NaN counts as 0 there.
\<close>

lemma compareScored_total: "compareScored a b \<le> 0 \<or> compareScored b a \<le> 0"
  by (auto simp: compareScored_def scoreOrZero_def Let_def)

lemma compareScored_trans:
  "compareScored a b \<le> 0 \<Longrightarrow> compareScored b c \<le> 0 \<Longrightarrow> compareScored a c \<le> 0"
  by (auto simp: compareScored_def scoreOrZero_def Let_def INTEREST_PRIORITY_RANGE_def
      split: if_splits)

lemma compareScored_consistent:
  "(compareScored a b < 0) = (0 < compareScored b a)"
  by (auto simp: compareScored_def scoreOrZero_def Let_def INTEREST_PRIORITY_RANGE_def
      split: if_splits)

lemma set_insertBy: "set (insertBy cmp x ys) = insert x (set ys)"
  by (induction ys) auto

lemma set_sortBy: "set (sortBy cmp xs) = set xs"
  by (induction xs) (auto simp: sortBy_def set_insertBy)

lemma sorted_insertBy:
  assumes total: "\<And>a b. cmp a b \<le> 0 \<or> cmp b a \<le> 0"
    and trans: "\<And>a b c. cmp a b \<le> 0 \<Longrightarrow> cmp b c \<le> 0 \<Longrightarrow> cmp a c \<le> 0"
  shows "sorted_wrt (\<lambda>a b. cmp a b \<le> 0) ys \<Longrightarrow> sorted_wrt (\<lambda>a b. cmp a b \<le> 0) (insertBy cmp x ys)"
proof (induction ys)
  case Nil
  then show ?case by simp
next
  case (Cons y ys)
  show ?case
  proof (cases "cmp x y \<le> 0")
    case True
    then have "\<forall>z\<in>set ys. cmp x z \<le> 0" using Cons.prems trans by auto
    with True Cons.prems show ?thesis by simp
  next
    case False
    then have "cmp y x \<le> 0" using total by blast
    with False Cons show ?thesis by (auto simp: set_insertBy)
  qed
qed

lemma sorted_sortBy:
  assumes total: "\<And>a b. cmp a b \<le> 0 \<or> cmp b a \<le> 0"
    and trans: "\<And>a b c. cmp a b \<le> 0 \<Longrightarrow> cmp b c \<le> 0 \<Longrightarrow> cmp a c \<le> 0"
  shows "sorted_wrt (\<lambda>a b. cmp a b \<le> 0) (sortBy cmp xs)"
proof (induction xs)
  case Nil
  then show ?case by (simp add: sortBy_def)
next
  case (Cons x xs)
  then show ?case using sorted_insertBy[of cmp, OF total trans] by (simp add: sortBy_def)
qed

lemma sortBy_first_minimal:
  assumes "sortBy compareScored xs = first # rest"
  shows "first \<in> set xs \<and> (\<forall>c\<in>set xs. compareScored first c \<le> 0)"
proof -
  have srt: "sorted_wrt (\<lambda>a b. compareScored a b \<le> 0) (first # rest)"
    using sorted_sortBy[of compareScored xs] compareScored_total compareScored_trans assms
    by metis
  have st: "set xs = insert first (set rest)"
    using set_sortBy[of compareScored xs] assms by simp
  have "compareScored first first \<le> 0" using compareScored_total by blast
  with srt st show ?thesis by auto
qed

lemma sortBy_nonempty: "xs \<noteq> [] \<Longrightarrow> sortBy cmp xs \<noteq> []"
  using set_sortBy[of cmp xs] by (metis set_empty)

lemma getNextLandmark_cases:
  assumes "currentLocation s = Some loc"
  shows "(available s landmarks = [] \<and> getNextLandmark env s landmarks = None)
       \<or> (available s landmarks \<noteq> []
           \<and> (\<exists>first rest. sortBy compareScored (withScores env s loc landmarks) = first # rest
                  \<and> getNextLandmark env s landmarks = Some first))"
proof (cases "available s landmarks = []")
  case True
  then show ?thesis using assms by (simp add: getNextLandmark_def)
next
  case False
  then have "withScores env s loc landmarks \<noteq> []" by (simp add: withScores_def)
  then obtain first rest where "sortBy compareScored (withScores env s loc landmarks) = first # rest"
    using sortBy_nonempty by (metis list.exhaust)
  then show ?thesis using assms False by (simp add: getNextLandmark_def)
qed

lemma tiers_of_minimal:
  assumes "compareScored r c \<le> 0"
  shows "(\<not> previouslyVisited c \<longrightarrow> \<not> previouslyVisited r)
       \<and> (previouslyVisited c = previouslyVisited r
            \<and> orZero (sl_distance r) \<le> 200 \<and> orZero (sl_distance c) \<le> 200
            \<longrightarrow> interestScore c \<le> interestScore r)
       \<and> (previouslyVisited c = previouslyVisited r
            \<and> (interestScore c = interestScore r
                 \<or> 200 < orZero (sl_distance r) \<or> 200 < orZero (sl_distance c))
            \<longrightarrow> orZero (sl_distance r) \<le> orZero (sl_distance c))"
  using assms
  by (auto simp: compareScored_def scoreOrZero_def Let_def INTEREST_PRIORITY_RANGE_def
      split: if_splits)

lemma sl_id_withScore: "sl_id (withScore env loc l) = lm_id l"
  by (simp add: withScore_def Let_def)

lemma getNextLandmark_from_available:
  assumes "getNextLandmark env s ls = Some n"
  shows "\<exists>l\<in>set (available s ls). sl_id n = lm_id l"
proof -
  obtain loc where loc: "currentLocation s = Some loc"
    using assms by (cases "currentLocation s") (auto simp: getNextLandmark_def)
  obtain rest where "sortBy compareScored (withScores env s loc ls) = n # rest"
    using getNextLandmark_cases[OF loc, of ls env] assms by auto
  then have "n \<in> set (withScores env s loc ls)" using sortBy_first_minimal by blast
  then show ?thesis by (auto simp: withScores_def sl_id_withScore)
qed

lemma getNextLandmark_single:
  "currentLocation s = Some loc \<Longrightarrow> lm_id l \<notin> visitedIds s \<Longrightarrow> lm_id l \<notin> skippedIds s \<Longrightarrow>
   getNextLandmark env s [l] = Some (withScore env loc l)"
  by (simp add: getNextLandmark_def available_def withScores_def sortBy_def)

lemma getNextLandmark_single_hidden:
  "lm_id l \<in> visitedIds s \<or> lm_id l \<in> skippedIds s \<Longrightarrow> getNextLandmark env s [l] = None"
  by (auto simp: getNextLandmark_def available_def split: option.splits)

lemma orZero_Num: "orZero (Num d) = d"
  by (simp add: orZero_def)

lemma orZero_NaN: "orZero NaN = 0"
  by (simp add: orZero_def)

lemma available_iff:
  "(available s landmarks = [])
     = (\<forall>l\<in>set landmarks. lm_id l \<in> visitedIds s \<or> lm_id l \<in> skippedIds s)"
  by (auto simp: available_def filter_empty_conv)

lemma set_withScores:
  "set (withScores env s loc landmarks)
     = withScore env loc ` {l \<in> set landmarks. lm_id l \<notin> visitedIds s \<and> lm_id l \<notin> skippedIds s}"
  by (auto simp: withScores_def available_def)

lemma getNextLandmark_ranked:
  assumes "currentLocation s = Some loc"
  shows "((getNextLandmark env s landmarks = None)
            = (\<forall>l\<in>set landmarks. lm_id l \<in> visitedIds s \<or> lm_id l \<in> skippedIds s))
    \<and> (\<forall>r. getNextLandmark env s landmarks = Some r \<longrightarrow>
          sl_id r \<notin> visitedIds s \<and> sl_id r \<notin> skippedIds s
          \<and> (\<exists>l\<in>set landmarks. r = withScore env loc l)
          \<and> (\<forall>l\<in>set landmarks. lm_id l \<notin> visitedIds s \<and> lm_id l \<notin> skippedIds s \<longrightarrow>
                compareScored r (withScore env loc l) \<le> 0
                \<and> (\<not> previouslyVisited (withScore env loc l) \<longrightarrow> \<not> previouslyVisited r)
                \<and> (previouslyVisited (withScore env loc l) = previouslyVisited r
                      \<and> orZero (sl_distance r) \<le> 200
                      \<and> orZero (sl_distance (withScore env loc l)) \<le> 200
                    \<longrightarrow> interestScore (withScore env loc l) \<le> interestScore r)
                \<and> (previouslyVisited (withScore env loc l) = previouslyVisited r
                      \<and> (interestScore (withScore env loc l) = interestScore r
                           \<or> 200 < orZero (sl_distance r)
                           \<or> 200 < orZero (sl_distance (withScore env loc l)))
                    \<longrightarrow> orZero (sl_distance r) \<le> orZero (sl_distance (withScore env loc l)))))"
proof (intro conjI allI impI)
  show "(getNextLandmark env s landmarks = None)
            = (\<forall>l\<in>set landmarks. lm_id l \<in> visitedIds s \<or> lm_id l \<in> skippedIds s)"
    using getNextLandmark_cases[OF assms, of landmarks env] available_iff[of s landmarks] by auto
next
  fix r assume r: "getNextLandmark env s landmarks = Some r"
  then obtain rest where "sortBy compareScored (withScores env s loc landmarks) = r # rest"
    using getNextLandmark_cases[OF assms, of landmarks env] by auto
  from sortBy_first_minimal[OF this]
  have m: "r \<in> set (withScores env s loc landmarks)"
    "\<forall>c\<in>set (withScores env s loc landmarks). compareScored r c \<le> 0" by auto
  from m(1) obtain l0 where l0: "l0 \<in> set landmarks" "lm_id l0 \<notin> visitedIds s"
      "lm_id l0 \<notin> skippedIds s" "r = withScore env loc l0"
    by (auto simp: set_withScores)
  show "sl_id r \<notin> visitedIds s" "sl_id r \<notin> skippedIds s"
    using l0 by (simp_all add: sl_id_withScore)
  show "\<exists>l\<in>set landmarks. r = withScore env loc l" using l0 by blast
  show "\<forall>l\<in>set landmarks. lm_id l \<notin> visitedIds s \<and> lm_id l \<notin> skippedIds s \<longrightarrow>
                compareScored r (withScore env loc l) \<le> 0
                \<and> (\<not> previouslyVisited (withScore env loc l) \<longrightarrow> \<not> previouslyVisited r)
                \<and> (previouslyVisited (withScore env loc l) = previouslyVisited r
                      \<and> orZero (sl_distance r) \<le> 200
                      \<and> orZero (sl_distance (withScore env loc l)) \<le> 200
                    \<longrightarrow> interestScore (withScore env loc l) \<le> interestScore r)
                \<and> (previouslyVisited (withScore env loc l) = previouslyVisited r
                      \<and> (interestScore (withScore env loc l) = interestScore r
                           \<or> 200 < orZero (sl_distance r)
                           \<or> 200 < orZero (sl_distance (withScore env loc l)))
                    \<longrightarrow> orZero (sl_distance r) \<le> orZero (sl_distance (withScore env loc l)))"
  proof (intro ballI impI)
    fix l assume "l \<in> set landmarks" "lm_id l \<notin> visitedIds s \<and> lm_id l \<notin> skippedIds s"
    then have "withScore env loc l \<in> set (withScores env s loc landmarks)"
      by (auto simp: set_withScores)
    then have "compareScored r (withScore env loc l) \<le> 0" using m(2) by blast
    then show "compareScored r (withScore env loc l) \<le> 0
                \<and> (\<not> previouslyVisited (withScore env loc l) \<longrightarrow> \<not> previouslyVisited r)
                \<and> (previouslyVisited (withScore env loc l) = previouslyVisited r
                      \<and> orZero (sl_distance r) \<le> 200
                      \<and> orZero (sl_distance (withScore env loc l)) \<le> 200
                    \<longrightarrow> interestScore (withScore env loc l) \<le> interestScore r)
                \<and> (previouslyVisited (withScore env loc l) = previouslyVisited r
                      \<and> (interestScore (withScore env loc l) = interestScore r
                           \<or> 200 < orZero (sl_distance r)
                           \<or> 200 < orZero (sl_distance (withScore env loc l)))
                    \<longrightarrow> orZero (sl_distance r) \<le> orZero (sl_distance (withScore env loc l)))"
      using tiers_of_minimal by blast
  qed
qed

lemma getNextLandmark_pair:
  assumes loc: "currentLocation s = Some loc"
    and ab: "set (withScores env s loc landmarks) = {a, b}"
    and cmp: "0 < compareScored a b"
  shows "getNextLandmark env s landmarks = Some b"
proof -
  have "available s landmarks \<noteq> []" using ab by (auto simp: withScores_def)
  then obtain r rest where r: "sortBy compareScored (withScores env s loc landmarks) = r # rest"
      "getNextLandmark env s landmarks = Some r"
    using getNextLandmark_cases[OF loc, of landmarks env] by auto
  from sortBy_first_minimal[OF r(1)] ab
  have "r = a \<or> r = b" "compareScored r b \<le> 0" by auto
  then have "r = b" using cmp by auto
  then show ?thesis using r by simp
qed

lemma getNextLandmark_examples:
  assumes "currentLocation s = Some loc"
    and "set (withScores env s loc landmarks) = {a, b}"
    and "\<not> previouslyVisited a" "\<not> previouslyVisited b"
    and "sl_distance a = Num 50" "interestScore a = 0" "interestScore b = 2"
  shows "sl_distance b = Num 180 \<Longrightarrow> getNextLandmark env s landmarks = Some b"
    and "sl_distance b = Num 250 \<Longrightarrow> getNextLandmark env s landmarks = Some a"
proof -
  assume "sl_distance b = Num 180"
  then have "0 < compareScored a b" using assms
    by (simp add: compareScored_def orZero_def scoreOrZero_def Let_def INTEREST_PRIORITY_RANGE_def)
  then show "getNextLandmark env s landmarks = Some b"
    using getNextLandmark_pair[OF assms(1,2)] by simp
next
  assume "sl_distance b = Num 250"
  then have "0 < compareScored b a" using assms
    by (simp add: compareScored_def orZero_def scoreOrZero_def Let_def INTEREST_PRIORITY_RANGE_def)
  moreover have "set (withScores env s loc landmarks) = {b, a}" using assms(2) by auto
  ultimately show "getNextLandmark env s landmarks = Some a"
    using getNextLandmark_pair[OF assms(1)] by simp
qed

section \<open>The proximity check\<close>

lemma checkProximity_gate:
  "isPaused s \<or> pendingLandmark s \<noteq> None \<Longrightarrow> checkProximity env s ls = (None, s)"
  by (auto simp: checkProximity_def)

lemma checkProximity_none:
  "getNextLandmark env s ls = None \<Longrightarrow> checkProximity env s ls = (None, s)"
  by (auto simp: checkProximity_def)

lemma checkProximity_some:
  "\<not> isPaused s \<Longrightarrow> pendingLandmark s = None \<Longrightarrow> getNextLandmark env s ls = Some n \<Longrightarrow>
   checkProximity env s ls =
     (case sl_distance n of
        NaN \<Rightarrow> (None, s)
      | Num d \<Rightarrow>
          if d \<noteq> 0 \<and> d \<le> 30 then (Some n, s\<lparr> pendingLandmark := Some n \<rparr>) else (None, s))"
  by (auto simp: checkProximity_def PROXIMITY_THRESHOLD_def falsy_def lessEq_def
      split: number.splits)

lemma checkProximity_frame:
  "visitedIds (snd (checkProximity env s ls)) = visitedIds s"
  "skippedIds (snd (checkProximity env s ls)) = skippedIds s"
  by (auto simp: checkProximity_def split: option.splits)

lemma checkProximity_pending:
  assumes "pendingLandmark (snd (checkProximity env s ls)) = Some p"
  shows "pendingLandmark s = Some p \<or> (\<exists>l\<in>set (available s ls). sl_id p = lm_id l)"
proof (cases "getNextLandmark env s ls")
  case None
  then show ?thesis using assms checkProximity_none[OF None] by simp
next
  case (Some n)
  then show ?thesis using assms getNextLandmark_from_available[OF Some]
    by (auto simp: checkProximity_def split: if_splits)
qed

section \<open>Where a pending landmark comes from\<close>

lemma pending_arises:
  assumes "pendingLandmark s = None" and "pendingLandmark (step env ev s) \<noteq> None"
  shows "(\<exists>ls. ev = CheckProximity ls) \<and> \<not> isPaused s"
proof (cases ev)
  case (CheckProximity ls)
  then show ?thesis using assms by (auto simp: checkProximity_def)
qed (use assms in \<open>auto simp: startWalk_def stopWalk_def pauseWalk_def resumeWalk_def
      handlePositionUpdate_def handlePositionError_def explorePending_def skipPending_def
      markVisited_def advanceTour_def startTourWalk_def getNextTourLandmark_def endTourMode_def
      upgradeTourAccess_def cityEffect_def onCityChanged_def Let_def
      split: option.splits if_splits\<close>)

lemma appStep_active:
  assumes "pendingLandmark (walk a) \<noteq> None \<longrightarrow> isActive (walk a)"
  shows "pendingLandmark (walk (appStep env ev a)) \<noteq> None \<longrightarrow> isActive (walk (appStep env ev a))"
proof (cases ev)
  case (Tick ls)
  then show ?thesis using assms
    by (auto simp: proximityTick_def checkProximity_def Let_def split: option.splits if_splits)
qed (use assms in \<open>auto simp: startWalk_def stopWalk_def pauseWalk_def resumeWalk_def
      handlePositionUpdate_def handlePositionError_def explorePending_def skipPending_def
      onExplorePending_def onSkipPending_def cityChanged_def
      markVisited_def advanceTour_def startTourWalk_def
      cityEffect_def onCityChanged_def Let_def
      split: option.splits if_splits\<close>)

lemma appRun_active:
  "(pendingLandmark (walk a) \<noteq> None \<longrightarrow> isActive (walk a)) \<Longrightarrow>
   pendingLandmark (walk (appRun env evs a)) \<noteq> None \<longrightarrow> isActive (walk (appRun env evs a))"
  unfolding appRun_def
proof (induction evs arbitrary: a)
  case Nil
  then show ?case by simp
next
  case (Cons ev evs)
  show ?case using Cons.IH[OF appStep_active[OF Cons.prems]] by simp
qed

section \<open>The tour index\<close>

lemma markVisited_tour:
  assumes "activeTour s = Some tour"
  shows "tourIndex (markVisited ident s)
           = (if elemAt (landmarkIds tour) (tourIndex s) = Some ident then tourIndex s + 1
              else tourIndex s)"
    and "activeTour (markVisited ident s) = Some tour"
  using assms by (auto simp: markVisited_def advanceTour_def Let_def)

lemma fold_markVisited_off_sequence:
  assumes "activeTour s = Some tour"
    and "\<forall>i\<in>set idents. elemAt (landmarkIds tour) (tourIndex s) \<noteq> Some i"
  shows "tourIndex (fold markVisited idents s) = tourIndex s"
  using assms
proof (induction idents arbitrary: s)
  case Nil
  then show ?case by simp
next
  case (Cons i idents)
  have t: "activeTour (markVisited i s) = Some tour"
    "tourIndex (markVisited i s) = tourIndex s"
    using markVisited_tour[OF Cons.prems(1), of i] Cons.prems(2) by auto
  have "tourIndex (fold markVisited idents (markVisited i s)) = tourIndex (markVisited i s)"
    using Cons.IH[OF t(1)] Cons.prems(2) t(2) by simp
  then show ?case using t(2) by simp
qed

lemma step_tour:
  assumes "activeTour s = Some tour" and "keepsTour ev"
  shows "activeTour (step env ev s) = Some tour
    \<and> tourIndex s \<le> tourIndex (step env ev s)
    \<and> tourIndex (step env ev s) \<le> tourIndex s + 1
    \<and> (tourIndex (step env ev s) \<noteq> tourIndex s \<longrightarrow>
         (\<exists>ident. elemAt (landmarkIds tour) (tourIndex s) = Some ident
            \<and> (ev = MarkVisited ident
                 \<or> (ev = ExplorePending \<and> (\<exists>p. pendingLandmark s = Some p \<and> sl_id p = ident)))))"
proof (cases ev)
  case (CheckProximity ls)
  then show ?thesis using assms by (auto simp: checkProximity_def split: option.splits)
next
  case ExplorePending
  then show ?thesis using assms markVisited_tour[OF assms(1)]
    by (auto simp: explorePending_def split: option.splits)
next
  case (MarkVisited i)
  then show ?thesis using assms markVisited_tour[OF assms(1), of i] by auto
qed (use assms in \<open>auto simp: startWalk_def stopWalk_def pauseWalk_def resumeWalk_def
      handlePositionUpdate_def handlePositionError_def skipPending_def
      getNextTourLandmark_def upgradeTourAccess_def Let_def
      split: option.splits if_splits\<close>)

lemma run_tour:
  assumes "activeTour s = Some tour" and "\<forall>ev\<in>set evs. keepsTour ev"
  shows "activeTour (run env evs s) = Some tour
    \<and> tourIndex s \<le> tourIndex (run env evs s)
    \<and> tourIndex (run env evs s) \<le> tourIndex s + int (length evs)"
  using assms unfolding run_def
proof (induction evs arbitrary: s)
  case Nil
  then show ?case by simp
next
  case (Cons ev evs)
  have k: "keepsTour ev" using Cons.prems(2) by simp
  note st = step_tour[OF Cons.prems(1) k, of env]
  have "activeTour (step env ev s) = Some tour" using st by simp
  from Cons.IH[OF this] Cons.prems(2) st show ?case by auto
qed

lemma markLandmarkVisited_index:
  assumes "ts_activeTour t = Some tour" and "ts_progress t = Some pr"
  shows "\<exists>pr'. ts_progress (markLandmarkVisited browser now ident t) = Some pr'
      \<and> currentLandmarkIndex pr'
          = (if elemAt (landmarkIds tour) (currentLandmarkIndex pr) = Some ident
             then currentLandmarkIndex pr + 1 else currentLandmarkIndex pr)
      \<and> ts_activeTour (markLandmarkVisited browser now ident t) = Some tour"
  using assms by (auto simp: markLandmarkVisited_def Let_def)

section \<open>The session sets and the invariant of the component\<close>

lemma set_setAdd: "set (setAdd x xs) = insert x (set xs)"
  by (auto simp: setAdd_def)

lemma set_setDelete: "set (setDelete x xs) = set xs - {x}"
  by (auto simp: setDelete_def)

lemma sessionMarkVisited_sets:
  "set (ss_visitedIds (sessionMarkVisited b t i s)) = insert i (set (ss_visitedIds s))"
  "set (ss_skippedIds (sessionMarkVisited b t i s)) = set (ss_skippedIds s) - {i}"
  by (simp_all add: sessionMarkVisited_def saveSession_def set_setAdd set_setDelete)

lemma sessionMarkSkipped_sets:
  "set (ss_visitedIds (sessionMarkSkipped b t i s)) = set (ss_visitedIds s)"
  "set (ss_skippedIds (sessionMarkSkipped b t i s)) = insert i (set (ss_skippedIds s))"
  by (simp_all add: sessionMarkSkipped_def saveSession_def set_setAdd)

lemma tick_inv:
  assumes "appInv a"
  shows "appInv (proximityTick env ls a)"
proof (cases "\<not> isActive (walk a) \<or> isPaused (walk a)")
  case True
  then show ?thesis using assms by (simp add: proximityTick_def)
next
  case False
  let ?wl = "map toWalkLandmark (filter (\<lambda>l. shouldShow (session a) (l_id l)) ls)"
  have e: "proximityTick env ls a = a\<lparr> walk := snd (checkProximity env (walk a) ?wl) \<rparr>"
    using False by (simp add: proximityTick_def Let_def)
  { fix p assume "pendingLandmark (snd (checkProximity env (walk a) ?wl)) = Some p"
    from checkProximity_pending[OF this]
    have "sl_id p \<notin> set (ss_visitedIds (session a)) \<and> sl_id p \<notin> set (ss_skippedIds (session a))
             \<and> sl_id p \<notin> visitedIds (walk a) \<and> sl_id p \<notin> skippedIds (walk a)"
      using assms
      by (auto simp: appInv_def available_def toWalkLandmark_def shouldShow_def hasVisited_def
          hasSkipped_def) }
  then show ?thesis using assms by (simp add: e appInv_def checkProximity_frame)
qed

lemma explore_inv:
  assumes "appInv a"
  shows "appInv (onExplorePending env today a)"
  using assms
  by (auto simp: appInv_def onExplorePending_def explorePending_def markVisited_def
      advanceTour_def Let_def sessionMarkVisited_sets split: option.splits)

lemma skip_inv:
  assumes "appInv a"
  shows "appInv (onSkipPending env today a)"
  using assms
  by (auto simp: appInv_def onSkipPending_def skipPending_def Let_def sessionMarkSkipped_sets
      split: option.splits)

lemma appStep_inv:
  assumes "appInv a"
  shows "appInv (appStep env ev a)"
proof (cases ev)
  case (Tick ls)
  then show ?thesis using tick_inv[OF assms] by simp
next
  case (Explore today)
  then show ?thesis using explore_inv[OF assms] by simp
next
  case (Skip today)
  then show ?thesis using skip_inv[OF assms] by simp
qed (use assms in \<open>auto simp: appInv_def startWalk_def stopWalk_def pauseWalk_def resumeWalk_def
      handlePositionUpdate_def handlePositionError_def cityChanged_def startTourWalk_def
      cityEffect_def onCityChanged_def Let_def split: if_splits\<close>)

lemma appRun_inv: "appInv a \<Longrightarrow> appInv (appRun env evs a)"
  unfolding appRun_def
  by (induction evs arbitrary: a) (simp_all add: appStep_inv)

section \<open>The concrete states, evaluated\<close>

lemma walking_eq:
  "walking = initialWalkState\<lparr> isActive := True, watchId := Some 1,
      currentLocation := Some origin \<rparr>"
  by (simp add: origin_def walking_def run_def startWalk_def demoEnv_def handlePositionUpdate_def
      initialWalkState_def fixAtOrigin_def POOR_ACCURACY_THRESHOLD_def Let_def)

lemma score_demo:
  "getInterestMatchScore demoEnv None = (0, None)"
  "getInterestMatchScore demoEnv (Some [''history'']) = (2, Some ''history'')"
  "getInterestMatchScore demoEnv (Some [''food'']) = (1, Some ''food'')"
  "getInterestMatchScore demoEnv (Some [''art'']) = (0, None)"
  by (simp_all add: getInterestMatchScore_def demoEnv_def)

lemma withScore_demo:
  assumes "0 \<le> d" "d \<le> 1000000"
  shows "withScore demoEnv origin (landmarkNorth i d ts)
    = \<lparr> sl_id = i, sl_name = i, sl_latitude = metresNorth d, sl_longitude = 0, sl_tags = ts,
        sl_distance = Num d, sl_matchedInterest = snd (getInterestMatchScore demoEnv ts),
        interestScore = fst (getInterestMatchScore demoEnv ts), previouslyVisited = (i = ''seen'') \<rparr>"
  using assms by (simp add: origin_def withScore_def landmarkNorth_def demoEnv_def calculateDistance_north Let_def)

lemma demo_scored:
  assumes "0 \<le> d" "d \<le> 1000000"
  shows "sl_distance (withScore demoEnv origin (landmarkNorth i d ts)) = Num d"
    and "interestScore (withScore demoEnv origin (landmarkNorth i d ts)) = fst (getInterestMatchScore demoEnv ts)"
    and "previouslyVisited (withScore demoEnv origin (landmarkNorth i d ts)) = (i = ''seen'')"
    and "sl_id (withScore demoEnv origin (landmarkNorth i d ts)) = i"
  using assms by (simp_all add: withScore_demo)

lemma walking_fields:
  "currentLocation walking = Some origin" "visitedIds walking = {}" "skippedIds walking = {}"
  "isActive walking" "\<not> isPaused walking" "pendingLandmark walking = None"
  "activeTour walking = None"
  by (simp_all add: walking_eq initialWalkState_def)

lemma withScores_walking:
  "withScores demoEnv walking origin ls = map (withScore demoEnv origin) ls"
  by (simp add: withScores_def available_def walking_fields)

lemma prompting_eq:
  "prompting = walking\<lparr> pendingLandmark := Some (withScore demoEnv origin (landmarkNorth ''A'' 20 None)) \<rparr>"
  by (simp add: prompting_def checkProximity_some[OF walking_fields(5) walking_fields(6)
        getNextLandmark_single[OF walking_fields(1)]] landmarkNorth_def walking_fields demo_scored[unfolded landmarkNorth_def])

lemma explored_eq:
  "explored = walking\<lparr> visitedIds := {''A''} \<rparr>"
  by (simp add: explored_def prompting_eq explorePending_def markVisited_def walking_fields demo_scored
      walking_eq initialWalkState_def)

lemma walking_app:
  "appRun demoEnv [StartWalkMode, Position (fixAtOrigin 10)] (initialApp demoEnv d Missing)
   = \<lparr> walk = walking, session = \<lparr> ss_visitedIds = [], ss_skippedIds = [], ss_storage = Missing \<rparr> \<rparr>"
  by (simp add: appRun_def initialApp_def walking_def run_def newSessionService_def loadSession_def
      demoEnv_def)

lemma toWalkLandmark_A: "toWalkLandmark landmarkA = landmarkNorth ''A'' 20 None"
  by (simp add: toWalkLandmark_def landmarkA_def landmarkNorth_def)

lemma exploredApp_eq:
  "exploredApp =
     \<lparr> walk = explored,
       session = \<lparr> ss_visitedIds = [''A''], ss_skippedIds = [],
                   ss_storage = Parsed \<lparr> sd_date = ''2026-01-01'', sd_visitedIds = [''A''],
                                         sd_skippedIds = [] \<rparr> \<rparr> \<rparr>"
proof -
  let ?a = "\<lparr> walk = walking, session = \<lparr> ss_visitedIds = [], ss_skippedIds = [], ss_storage = Missing \<rparr> \<rparr>"
  have t: "proximityTick demoEnv [landmarkA] ?a = ?a\<lparr> walk := prompting \<rparr>"
    by (simp add: proximityTick_def walking_fields shouldShow_def hasVisited_def hasSkipped_def
        toWalkLandmark_A prompting_def)
  have e: "explorePending prompting
      = (Some (withScore demoEnv origin (landmarkNorth ''A'' 20 None)), explored)"
    by (simp add: explored_def explorePending_def prompting_eq)
  have b: "isBrowser demoEnv" by (simp add: demoEnv_def)
  have "exploredApp = appStep demoEnv (Explore ''2026-01-01'') (appStep demoEnv (Tick [landmarkA]) ?a)"
    using walking_app[of "''2026-01-01''"] by (simp add: exploredApp_def appRun_def)
  also have "\<dots> = \<lparr> walk = explored,
       session = \<lparr> ss_visitedIds = [''A''], ss_skippedIds = [],
                   ss_storage = Parsed \<lparr> sd_date = ''2026-01-01'', sd_visitedIds = [''A''],
                                         sd_skippedIds = [] \<rparr> \<rparr> \<rparr>"
    using b by (simp add: t onExplorePending_def e sessionMarkVisited_def saveSession_def setAdd_def
        setDelete_def demo_scored)
  finally show ?thesis .
qed

lemma touring_fields:
  "activeTour touring = Some demoTour" "tourIndex touring = 0" "pendingLandmark touring = None"
  by (simp_all add: touring_def run_def startTourWalk_def startWalk_def handlePositionUpdate_def
      demoEnv_def initialWalkState_def demoTour_def fixAtOrigin_def Let_def)

lemma getNextLandmark_examples_demo:
  "getNextLandmark demoEnv walking
        [landmarkNorth ''A'' 50 None, landmarkNorth ''B'' 180 (Some [''history''])]
      = Some (withScore demoEnv origin (landmarkNorth ''B'' 180 (Some [''history''])))"
  "getNextLandmark demoEnv walking
        [landmarkNorth ''A'' 50 None, landmarkNorth ''B'' 250 (Some [''history''])]
      = Some (withScore demoEnv origin (landmarkNorth ''A'' 50 None))"
proof -
  show "getNextLandmark demoEnv walking
        [landmarkNorth ''A'' 50 None, landmarkNorth ''B'' 180 (Some [''history''])]
      = Some (withScore demoEnv origin (landmarkNorth ''B'' 180 (Some [''history''])))"
    by (rule getNextLandmark_examples(1) [OF walking_fields(1),
          where a = "withScore demoEnv origin (landmarkNorth ''A'' 50 None)"])
       (simp_all add: withScores_walking demo_scored score_demo)
  show "getNextLandmark demoEnv walking
        [landmarkNorth ''A'' 50 None, landmarkNorth ''B'' 250 (Some [''history''])]
      = Some (withScore demoEnv origin (landmarkNorth ''A'' 50 None))"
    by (rule getNextLandmark_examples(2) [OF walking_fields(1),
          where b = "withScore demoEnv origin (landmarkNorth ''B'' 250 (Some [''history'']))"])
       (simp_all add: withScores_walking demo_scored score_demo)
qed

lemma walkingAtEight_fields:
  "currentLocation walkingAtEight = Some atEight" "visitedIds walkingAtEight = {}"
  "skippedIds walkingAtEight = {}"
  by (simp_all add: walkingAtEight_def run_def startWalk_def doubleEnv_def demoEnv_def
      handlePositionUpdate_def initialWalkState_def atEight_def POOR_ACCURACY_THRESHOLD_def Let_def)

lemma scored_Z:
  "withScore doubleEnv atEight (landmarkAt ''Z'' (- 8) 180)
   = \<lparr> sl_id = ''Z'', sl_name = ''Z'', sl_latitude = - 8, sl_longitude = 180, sl_tags = None,
       sl_distance = NaN, sl_matchedInterest = None, interestScore = 0,
       previouslyVisited = False \<rparr>"
  by (simp add: withScore_def landmarkAt_def doubleEnv_def demoEnv_def atEight_def
      getInterestMatchScore_def distanceFromA_above_one Let_def)

lemma scored_B:
  "withScore doubleEnv atEight (landmarkAt ''B'' (8 + metresNorth 111) 0)
   = \<lparr> sl_id = ''B'', sl_name = ''B'', sl_latitude = 8 + metresNorth 111, sl_longitude = 0,
       sl_tags = None, sl_distance = Num 111, sl_matchedInterest = None, interestScore = 0,
       previouslyVisited = False \<rparr>"
  by (simp add: withScore_def landmarkAt_def doubleEnv_def demoEnv_def atEight_def
      getInterestMatchScore_def calculateDistance_meridian Let_def)

section \<open>Results\<close>

text \<open>
  C1 at an antipode. The user is at latitude 8 on the prime meridian with nothing visited,
  skipped or remembered; candidate B is 111 m to the north, candidate Z is at the antipode,
  about 20015 km away by the formula over the reals. Both have interest score 0. In double
  precision the distance to Z is NaN, the comparator reads it as 0, and
  \<open>getNextLandmark\<close> returns Z, not the nearer B.
\<close>

theorem getNextLandmark_antipode_first:
  "currentLocation walkingAtEight = Some atEight
   \<and> visitedIds walkingAtEight = {} \<and> skippedIds walkingAtEight = {}
   \<and> sl_distance (withScore doubleEnv atEight (landmarkAt ''B'' (8 + metresNorth 111) 0)) = Num 111
   \<and> calculateDistance 8 0 (- 8) 180 = Num (6371000 * pi)
   \<and> distanceFn doubleEnv 8 0 (- 8) 180 = NaN
   \<and> sl_distance (withScore doubleEnv atEight (landmarkAt ''Z'' (- 8) 180)) = NaN
   \<and> interestScore (withScore doubleEnv atEight (landmarkAt ''B'' (8 + metresNorth 111) 0)) = 0
   \<and> interestScore (withScore doubleEnv atEight (landmarkAt ''Z'' (- 8) 180)) = 0
   \<and> \<not> previouslyVisited (withScore doubleEnv atEight (landmarkAt ''B'' (8 + metresNorth 111) 0))
   \<and> \<not> previouslyVisited (withScore doubleEnv atEight (landmarkAt ''Z'' (- 8) 180))
   \<and> getNextLandmark doubleEnv walkingAtEight
        [landmarkAt ''B'' (8 + metresNorth 111) 0, landmarkAt ''Z'' (- 8) 180]
       = Some (withScore doubleEnv atEight (landmarkAt ''Z'' (- 8) 180))"
proof -
  have n: "distanceFn doubleEnv 8 0 (- 8) 180 = NaN"
    by (simp add: doubleEnv_def distanceFromA_above_one)
  have g: "getNextLandmark doubleEnv walkingAtEight
        [landmarkAt ''B'' (8 + metresNorth 111) 0, landmarkAt ''Z'' (- 8) 180]
       = Some (withScore doubleEnv atEight (landmarkAt ''Z'' (- 8) 180))"
    by (simp add: getNextLandmark_def available_def withScores_def walkingAtEight_fields
        landmarkAt_def[of "''B''"] landmarkAt_def[of "''Z''"] sortBy_def)
      (simp add: scored_Z[unfolded landmarkAt_def] scored_B[unfolded landmarkAt_def]
        compareScored_def orZero_def scoreOrZero_def INTEREST_PRIORITY_RANGE_def Let_def)
  show ?thesis
    using n g by (simp add: walkingAtEight_fields scored_Z scored_B calculateDistance_antipode)
qed

text \<open>
  C2, as the code has it. \<open>pendingLandmark\<close> goes from unset to set only in
  \<open>checkProximity\<close>, and only when the engine is not paused at that moment. Stopping,
  exploring, skipping, a change of city and a successful start leave it unset. \<open>pauseWalk\<close>,
  a location update and a location error leave it as it was; \<open>pauseWalk\<close>, a location
  error and an update with accuracy above 50 m set \<open>isPaused\<close>, so a pending landmark can
  remain while the engine is paused. Along the handlers of the component, started with
  nothing pending, \<open>pendingLandmark\<close> is set only while \<open>isActive\<close> holds.
\<close>

theorem pendingLandmark_transitions:
  "(pendingLandmark s = None \<and> pendingLandmark (step env ev s) \<noteq> None
      \<longrightarrow> (\<exists>ls. ev = CheckProximity ls) \<and> \<not> isPaused s)
   \<and> pendingLandmark (step env StopWalk s) = None
   \<and> pendingLandmark (step env ExplorePending s) = None
   \<and> pendingLandmark (step env SkipPending s) = None
   \<and> (cid \<noteq> currentCityId s \<longrightarrow> pendingLandmark (step env (CityEffect (Some cid)) s) = None)
   \<and> (isBrowser env \<and> hasGeolocation env \<longrightarrow> pendingLandmark (step env StartWalk s) = None)
   \<and> pendingLandmark (step env PauseWalk s) = pendingLandmark s
   \<and> isPaused (step env PauseWalk s)
   \<and> pendingLandmark (step env (PositionUpdate position) s) = pendingLandmark s
   \<and> (50 < coords_accuracy position \<longrightarrow> isPaused (step env (PositionUpdate position) s))
   \<and> pendingLandmark (step env PositionError s) = pendingLandmark s
   \<and> isPaused (step env PositionError s)
   \<and> (pendingLandmark (walk app) = None \<and> pendingLandmark (walk (appRun env aevs app)) \<noteq> None
        \<longrightarrow> isActive (walk (appRun env aevs app)))"
proof -
  have a: "pendingLandmark s = None \<and> pendingLandmark (step env ev s) \<noteq> None
      \<longrightarrow> (\<exists>ls. ev = CheckProximity ls) \<and> \<not> isPaused s"
    using pending_arises by blast
  have b: "pendingLandmark (walk app) = None \<and> pendingLandmark (walk (appRun env aevs app)) \<noteq> None
        \<longrightarrow> isActive (walk (appRun env aevs app))"
    using appRun_active[of app env aevs] by simp
  have c: "pendingLandmark (step env StopWalk s) = None"
    "pendingLandmark (step env ExplorePending s) = None"
    "pendingLandmark (step env SkipPending s) = None"
    "cid \<noteq> currentCityId s \<longrightarrow> pendingLandmark (step env (CityEffect (Some cid)) s) = None"
    "isBrowser env \<and> hasGeolocation env \<longrightarrow> pendingLandmark (step env StartWalk s) = None"
    by (simp_all add: stopWalk_def explorePending_def skipPending_def cityEffect_def
        onCityChanged_def startWalk_def Let_def split: option.splits)
  have d: "pendingLandmark (step env PauseWalk s) = pendingLandmark s"
    "isPaused (step env PauseWalk s)"
    "pendingLandmark (step env (PositionUpdate position) s) = pendingLandmark s"
    "50 < coords_accuracy position \<longrightarrow> isPaused (step env (PositionUpdate position) s)"
    "pendingLandmark (step env PositionError s) = pendingLandmark s"
    "isPaused (step env PositionError s)"
    by (simp_all add: pauseWalk_def handlePositionUpdate_def handlePositionError_def
        POOR_ACCURACY_THRESHOLD_def Let_def)
  from a b c d show ?thesis by blast
qed

text \<open>
  C2, as stated, fails: a walk is started, a good fix arrives, a landmark 20 m ahead becomes
  pending; then the engine is paused, explicitly or by a fix with 80 m accuracy, and the
  landmark is still pending.
\<close>

theorem pending_while_paused:
  "isPaused (run demoEnv [StartWalk, PositionUpdate (fixAtOrigin 10),
                CheckProximity [landmarkNorth ''A'' 20 None], PauseWalk] initialWalkState)
   \<and> pendingLandmark (run demoEnv [StartWalk, PositionUpdate (fixAtOrigin 10),
                CheckProximity [landmarkNorth ''A'' 20 None], PauseWalk] initialWalkState) \<noteq> None
   \<and> isPaused (run demoEnv [StartWalk, PositionUpdate (fixAtOrigin 10),
                CheckProximity [landmarkNorth ''A'' 20 None],
                PositionUpdate (fixAtOrigin 80)] initialWalkState)
   \<and> pendingLandmark (run demoEnv [StartWalk, PositionUpdate (fixAtOrigin 10),
                CheckProximity [landmarkNorth ''A'' 20 None],
                PositionUpdate (fixAtOrigin 80)] initialWalkState) \<noteq> None"
proof -
  have r: "\<And>ev. run demoEnv [StartWalk, PositionUpdate (fixAtOrigin 10),
                CheckProximity [landmarkNorth ''A'' 20 None], ev] initialWalkState
           = step demoEnv ev prompting"
    by (simp add: run_def prompting_def walking_def)
  show ?thesis
    by (simp only: r)
      (simp add: prompting_eq pauseWalk_def handlePositionUpdate_def fixAtOrigin_def
        POOR_ACCURACY_THRESHOLD_def Let_def)
qed

theorem pendingLandmark_transitions_witness:
  "pendingLandmark walking = None
   \<and> pendingLandmark (step demoEnv (CheckProximity [landmarkNorth ''A'' 20 None]) walking) \<noteq> None
   \<and> \<not> isPaused walking
   \<and> ''austin'' \<noteq> currentCityId prompting
   \<and> pendingLandmark (step demoEnv (CityEffect (Some ''austin'')) prompting) = None
   \<and> isBrowser demoEnv \<and> hasGeolocation demoEnv
   \<and> pendingLandmark (step demoEnv StartWalk prompting) = None
   \<and> 50 < coords_accuracy (fixAtOrigin 80)
   \<and> isPaused (step demoEnv (PositionUpdate (fixAtOrigin 80)) prompting)
   \<and> pendingLandmark (step demoEnv (PositionUpdate (fixAtOrigin 80)) prompting) = pendingLandmark prompting
   \<and> pendingLandmark (walk (initialApp demoEnv ''2026-01-01'' Missing)) = None
   \<and> pendingLandmark (walk (appRun demoEnv [StartWalkMode, Position (fixAtOrigin 10), Tick [landmarkA]]
                               (initialApp demoEnv ''2026-01-01'' Missing))) \<noteq> None
   \<and> isActive (walk (appRun demoEnv [StartWalkMode, Position (fixAtOrigin 10), Tick [landmarkA]]
                               (initialApp demoEnv ''2026-01-01'' Missing)))"
proof -
  have p: "pendingLandmark (step demoEnv (CheckProximity [landmarkNorth ''A'' 20 None]) walking) \<noteq> None"
    using prompting_eq by (simp add: prompting_def)
  have c: "''austin'' \<noteq> currentCityId prompting"
    by (simp add: prompting_eq walking_eq initialWalkState_def)
  have e: "isBrowser demoEnv" "hasGeolocation demoEnv" by (simp_all add: demoEnv_def)
  have f: "50 < coords_accuracy (fixAtOrigin 80)" by (simp add: fixAtOrigin_def)
  have i: "pendingLandmark (walk (initialApp demoEnv ''2026-01-01'' Missing)) = None"
    by (simp add: initialApp_def initialWalkState_def)
  have t: "appRun demoEnv [StartWalkMode, Position (fixAtOrigin 10), Tick [landmarkA]]
                               (initialApp demoEnv ''2026-01-01'' Missing)
           = \<lparr> walk = prompting, session = \<lparr> ss_visitedIds = [], ss_skippedIds = [], ss_storage = Missing \<rparr> \<rparr>"
    using walking_app[of "''2026-01-01''"]
    by (simp add: appRun_def proximityTick_def walking_fields shouldShow_def hasVisited_def
        hasSkipped_def toWalkLandmark_A prompting_def)
  have q: "pendingLandmark (walk (appRun demoEnv [StartWalkMode, Position (fixAtOrigin 10), Tick [landmarkA]]
                               (initialApp demoEnv ''2026-01-01'' Missing))) \<noteq> None"
    by (simp add: t prompting_eq)
  note w1 = pendingLandmark_transitions [of walking demoEnv "CheckProximity [landmarkNorth ''A'' 20 None]"]
  note w2 = pendingLandmark_transitions [of prompting demoEnv _ "''austin''" "fixAtOrigin 80"
      "initialApp demoEnv ''2026-01-01'' Missing" "[StartWalkMode, Position (fixAtOrigin 10), Tick [landmarkA]]"]
  show ?thesis
    using w1 w2 p c e f i q by (simp add: walking_fields)
qed

text \<open>
  C3, as the code has it. A location update with accuracy above 50 m sets
  \<open>gpsAccuracyPoor\<close> and \<open>isPaused\<close>; one with accuracy at or below 50 m clears both, in
  every state, also right after an explicit \<open>pauseWalk\<close>: one flag serves both kinds of
  pause.
\<close>

theorem handlePositionUpdate_flags:
  "gpsAccuracyPoor (handlePositionUpdate position s) = (50 < coords_accuracy position)
   \<and> isPaused (handlePositionUpdate position s) = (50 < coords_accuracy position)
   \<and> isPaused (handlePositionUpdate position (pauseWalk s)) = (50 < coords_accuracy position)"
  by (simp add: handlePositionUpdate_def POOR_ACCURACY_THRESHOLD_def Let_def)

theorem handlePositionUpdate_flags_witness:
  "isPaused (handlePositionUpdate (fixAtOrigin 80) walking)
   \<and> gpsAccuracyPoor (handlePositionUpdate (fixAtOrigin 80) walking)
   \<and> \<not> isPaused (handlePositionUpdate (fixAtOrigin 50) (pauseWalk walking))"
  using handlePositionUpdate_flags [of "fixAtOrigin 80" walking]
    handlePositionUpdate_flags [of "fixAtOrigin 50" walking]
  by (simp add: fixAtOrigin_def)

text \<open>
  C3, as stated, fails: the engine is paused explicitly, a fix with 10 m accuracy arrives,
  and the engine is no longer paused.
\<close>

theorem explicit_pause_overwritten:
  "isPaused (pauseWalk walking)
   \<and> \<not> isPaused (handlePositionUpdate (fixAtOrigin 10) (pauseWalk walking))"
  by (simp add: pauseWalk_def handlePositionUpdate_def fixAtOrigin_def
      POOR_ACCURACY_THRESHOLD_def Let_def)

text \<open>
  C4, as the code has it. After \<open>markVisited(id)\<close> of the session service the id is in
  \<open>visitedIds\<close> and not in \<open>skippedIds\<close>, and disjoint sets stay disjoint.
  \<open>markSkipped(id)\<close> adds the id to \<open>skippedIds\<close> and does not touch \<open>visitedIds\<close>: it
  keeps the sets disjoint when the id is not visited, and leaves a visited id in both sets.
  Along every sequence of the component's handlers, started with disjoint sets and nothing
  pending, the two sets are disjoint, in the session service and in the engine: explore and
  skip act on a pending landmark, which the timer takes from candidates that
  \<open>shouldShow\<close> accepts.
\<close>

theorem session_sets_disjoint:
  "ident \<in> set (ss_visitedIds (sessionMarkVisited browser today ident s))
   \<and> ident \<notin> set (ss_skippedIds (sessionMarkVisited browser today ident s))
   \<and> (set (ss_visitedIds s) \<inter> set (ss_skippedIds s) = {} \<longrightarrow>
        set (ss_visitedIds (sessionMarkVisited browser today ident s))
          \<inter> set (ss_skippedIds (sessionMarkVisited browser today ident s)) = {})
   \<and> (set (ss_visitedIds s) \<inter> set (ss_skippedIds s) = {} \<and> ident \<notin> set (ss_visitedIds s) \<longrightarrow>
        set (ss_visitedIds (sessionMarkSkipped browser today ident s))
          \<inter> set (ss_skippedIds (sessionMarkSkipped browser today ident s)) = {})
   \<and> (ident \<in> set (ss_visitedIds s) \<longrightarrow>
        ident \<in> set (ss_visitedIds (sessionMarkSkipped browser today ident s))
        \<and> ident \<in> set (ss_skippedIds (sessionMarkSkipped browser today ident s)))
   \<and> (set (ss_visitedIds (session app)) \<inter> set (ss_skippedIds (session app)) = {}
        \<and> visitedIds (walk app) \<inter> skippedIds (walk app) = {}
        \<and> pendingLandmark (walk app) = None \<longrightarrow>
        set (ss_visitedIds (session (appRun env evs app)))
          \<inter> set (ss_skippedIds (session (appRun env evs app))) = {}
        \<and> visitedIds (walk (appRun env evs app)) \<inter> skippedIds (walk (appRun env evs app)) = {})"
proof -
  have a: "set (ss_visitedIds (session app)) \<inter> set (ss_skippedIds (session app)) = {}
        \<and> visitedIds (walk app) \<inter> skippedIds (walk app) = {}
        \<and> pendingLandmark (walk app) = None \<longrightarrow>
        set (ss_visitedIds (session (appRun env evs app)))
          \<inter> set (ss_skippedIds (session (appRun env evs app))) = {}
        \<and> visitedIds (walk (appRun env evs app)) \<inter> skippedIds (walk (appRun env evs app)) = {}"
  proof
    assume "set (ss_visitedIds (session app)) \<inter> set (ss_skippedIds (session app)) = {}
        \<and> visitedIds (walk app) \<inter> skippedIds (walk app) = {}
        \<and> pendingLandmark (walk app) = None"
    then have "appInv app" by (simp add: appInv_def)
    then have "appInv (appRun env evs app)" by (rule appRun_inv)
    then show "set (ss_visitedIds (session (appRun env evs app)))
          \<inter> set (ss_skippedIds (session (appRun env evs app))) = {}
        \<and> visitedIds (walk (appRun env evs app)) \<inter> skippedIds (walk (appRun env evs app)) = {}"
      by (simp add: appInv_def)
  qed
  have b: "ident \<in> set (ss_visitedIds (sessionMarkVisited browser today ident s))
   \<and> ident \<notin> set (ss_skippedIds (sessionMarkVisited browser today ident s))
   \<and> (set (ss_visitedIds s) \<inter> set (ss_skippedIds s) = {} \<longrightarrow>
        set (ss_visitedIds (sessionMarkVisited browser today ident s))
          \<inter> set (ss_skippedIds (sessionMarkVisited browser today ident s)) = {})"
    by (auto simp: sessionMarkVisited_sets)
  have c: "(set (ss_visitedIds s) \<inter> set (ss_skippedIds s) = {} \<and> ident \<notin> set (ss_visitedIds s) \<longrightarrow>
        set (ss_visitedIds (sessionMarkSkipped browser today ident s))
          \<inter> set (ss_skippedIds (sessionMarkSkipped browser today ident s)) = {})
   \<and> (ident \<in> set (ss_visitedIds s) \<longrightarrow>
        ident \<in> set (ss_visitedIds (sessionMarkSkipped browser today ident s))
        \<and> ident \<in> set (ss_skippedIds (sessionMarkSkipped browser today ident s)))"
    by (auto simp: sessionMarkSkipped_sets)
  from a b c show ?thesis by blast
qed

text \<open>
  C4, as stated, fails: in a fresh session, \<open>markVisited\<close> and then \<open>markSkipped\<close> of the same
  id leave the id in both sets.
\<close>

theorem visited_then_skipped_in_both:
  "''A'' \<in> set (ss_visitedIds
       (sessionMarkSkipped True ''2026-01-01'' ''A''
         (sessionMarkVisited True ''2026-01-01'' ''A''
           (newSessionService True ''2026-01-01'' Missing))))
   \<and> ''A'' \<in> set (ss_skippedIds
       (sessionMarkSkipped True ''2026-01-01'' ''A''
         (sessionMarkVisited True ''2026-01-01'' ''A''
           (newSessionService True ''2026-01-01'' Missing))))"
  by (simp add: sessionMarkSkipped_def sessionMarkVisited_def saveSession_def
      newSessionService_def loadSession_def setAdd_def setDelete_def)

theorem session_sets_disjoint_witness:
  "set (ss_visitedIds (session exploredApp)) \<inter> set (ss_skippedIds (session exploredApp)) = {}
   \<and> set (ss_visitedIds (sessionMarkVisited True ''2026-01-01'' ''B'' (session exploredApp)))
        \<inter> set (ss_skippedIds (sessionMarkVisited True ''2026-01-01'' ''B'' (session exploredApp))) = {}
   \<and> ''B'' \<notin> set (ss_visitedIds (session exploredApp))
   \<and> set (ss_visitedIds (sessionMarkSkipped True ''2026-01-01'' ''B'' (session exploredApp)))
        \<inter> set (ss_skippedIds (sessionMarkSkipped True ''2026-01-01'' ''B'' (session exploredApp))) = {}
   \<and> ''A'' \<in> set (ss_visitedIds (session exploredApp))
   \<and> ''A'' \<in> set (ss_skippedIds (sessionMarkSkipped True ''2026-01-01'' ''A'' (session exploredApp)))
   \<and> ''A'' \<notin> set (ss_skippedIds (sessionMarkVisited True ''2026-01-01'' ''A''
                     (sessionMarkSkipped True ''2026-01-01'' ''A'' (session exploredApp))))
   \<and> visitedIds (walk exploredApp) \<inter> skippedIds (walk exploredApp) = {}
   \<and> pendingLandmark (walk exploredApp) = None
   \<and> set (ss_visitedIds (session (appRun demoEnv
              [Tick [landmarkA], Skip ''2026-01-01'', StopWalkMode, StartWalkMode,
               Tick [landmarkA], Skip ''2026-01-01''] exploredApp)))
        \<inter> set (ss_skippedIds (session (appRun demoEnv
              [Tick [landmarkA], Skip ''2026-01-01'', StopWalkMode, StartWalkMode,
               Tick [landmarkA], Skip ''2026-01-01''] exploredApp))) = {}"
proof -
  have d: "set (ss_visitedIds (session exploredApp)) \<inter> set (ss_skippedIds (session exploredApp)) = {}"
    "''B'' \<notin> set (ss_visitedIds (session exploredApp))"
    "''A'' \<in> set (ss_visitedIds (session exploredApp))"
    by (simp_all add: exploredApp_eq)
  have e: "visitedIds (walk exploredApp) \<inter> skippedIds (walk exploredApp) = {}"
    "pendingLandmark (walk exploredApp) = None"
    by (simp_all add: exploredApp_eq explored_eq walking_fields)
  note w1 = session_sets_disjoint [of "''B''" True "''2026-01-01''" "session exploredApp"
      exploredApp demoEnv "[Tick [landmarkA], Skip ''2026-01-01'', StopWalkMode, StartWalkMode,
               Tick [landmarkA], Skip ''2026-01-01'']"]
  note w2 = session_sets_disjoint [of "''A''" True "''2026-01-01''" "session exploredApp"
      exploredApp demoEnv "[]"]
  note w3 = session_sets_disjoint [of "''A''" True "''2026-01-01''"
      "sessionMarkSkipped True ''2026-01-01'' ''A'' (session exploredApp)" exploredApp demoEnv "[]"]
  show ?thesis using w1 w2 w3 d e by simp
qed

text \<open>
  C5, as the code has it. When the active city changes to an id other than the stored one,
  the engine is stopped, its own \<open>visitedIds\<close> and \<open>skippedIds\<close> are empty,
  \<open>pendingLandmark\<close> is unset and its tour state is gone (no active tour, index 0,
  preview-limit flag cleared); the session service, with its sets and its stored copy, is
  exactly as before.
\<close>

theorem cityChanged_resets_engine:
  assumes "newCityId \<noteq> currentCityId (walk app)"
  shows "visitedIds (walk (cityChanged env newCityId app)) = {}
    \<and> skippedIds (walk (cityChanged env newCityId app)) = {}
    \<and> pendingLandmark (walk (cityChanged env newCityId app)) = None
    \<and> activeTour (walk (cityChanged env newCityId app)) = None
    \<and> tourIndex (walk (cityChanged env newCityId app)) = 0
    \<and> \<not> tourPreviewLimitReached (walk (cityChanged env newCityId app))
    \<and> \<not> isActive (walk (cityChanged env newCityId app))
    \<and> currentCityId (walk (cityChanged env newCityId app)) = newCityId
    \<and> session (cityChanged env newCityId app) = session app"
  using assms
  by (simp add: cityChanged_def cityEffect_def onCityChanged_def stopWalk_def Let_def)

theorem cityChanged_resets_engine_witness:
  "''austin'' \<noteq> currentCityId (walk exploredApp)
   \<and> visitedIds (walk exploredApp) = {''A''}
   \<and> visitedIds (walk (cityChanged demoEnv ''austin'' exploredApp)) = {}
   \<and> pendingLandmark (walk (cityChanged demoEnv ''austin'' exploredApp)) = None
   \<and> activeTour (walk (cityChanged demoEnv ''austin'' exploredApp)) = None
   \<and> session (cityChanged demoEnv ''austin'' exploredApp) = session exploredApp"
proof -
  have c: "''austin'' \<noteq> currentCityId (walk exploredApp)"
    by (simp add: exploredApp_eq explored_eq walking_eq initialWalkState_def)
  have v: "visitedIds (walk exploredApp) = {''A''}"
    by (simp add: exploredApp_eq explored_eq)
  show ?thesis using cityChanged_resets_engine [OF c, of demoEnv] c v by simp
qed

text \<open>
  C5, as stated, fails: after a landmark was explored, the session service holds its id in
  memory and in storage, and a change of city to Austin leaves both in place.
\<close>

theorem session_survives_city_change:
  "ss_visitedIds (session (appStep demoEnv (CitySelected ''austin'') exploredApp)) = [''A'']
   \<and> ss_storage (session (appStep demoEnv (CitySelected ''austin'') exploredApp))
       = Parsed \<lparr> sd_date = ''2026-01-01'', sd_visitedIds = [''A''], sd_skippedIds = [] \<rparr>
   \<and> currentCityId (walk (appStep demoEnv (CitySelected ''austin'') exploredApp)) = ''austin''"
  by (simp add: cityChanged_def cityEffect_def onCityChanged_def stopWalk_def Let_def
      exploredApp_eq explored_eq walking_eq initialWalkState_def)

text \<open>
  C6. While a tour is active, \<open>markVisited\<close> moves \<open>tourIndex\<close> by exactly one when its
  argument is the id at \<open>landmarkIds[tourIndex]\<close> and leaves it alone otherwise; any number
  of visits to other ids leave it unchanged. No event of the engine other than those that
  create or destroy the tour state (\<open>startTourWalk\<close>, \<open>endTourMode\<close>, a change of city)
  lowers the index or raises it by more than one, and the index changes only when the
  expected landmark is marked visited, directly or by exploring it as the pending landmark.
  \<open>markLandmarkVisited\<close> of the tour service treats its own index the same way.
\<close>

theorem tourIndex_advances_only_in_sequence:
  assumes "activeTour s = Some tour"
  shows "tourIndex (markVisited ident s)
           = (if elemAt (landmarkIds tour) (tourIndex s) = Some ident then tourIndex s + 1
              else tourIndex s)
    \<and> ((\<forall>i\<in>set idents. elemAt (landmarkIds tour) (tourIndex s) \<noteq> Some i)
          \<longrightarrow> tourIndex (fold markVisited idents s) = tourIndex s)
    \<and> (keepsTour ev \<longrightarrow>
          activeTour (step env ev s) = Some tour
          \<and> tourIndex s \<le> tourIndex (step env ev s)
          \<and> tourIndex (step env ev s) \<le> tourIndex s + 1
          \<and> (tourIndex (step env ev s) \<noteq> tourIndex s \<longrightarrow>
               (\<exists>i. elemAt (landmarkIds tour) (tourIndex s) = Some i
                  \<and> (ev = MarkVisited i
                       \<or> (ev = ExplorePending \<and> (\<exists>p. pendingLandmark s = Some p \<and> sl_id p = i))))))
    \<and> ((\<forall>e\<in>set evs. keepsTour e) \<longrightarrow>
          tourIndex s \<le> tourIndex (run env evs s)
          \<and> tourIndex (run env evs s) \<le> tourIndex s + int (length evs))
    \<and> (ts_activeTour t = Some tour \<and> ts_progress t = Some pr \<longrightarrow>
          (\<exists>pr'. ts_progress (markLandmarkVisited browser now ident t) = Some pr'
             \<and> currentLandmarkIndex pr'
                 = (if elemAt (landmarkIds tour) (currentLandmarkIndex pr) = Some ident
                    then currentLandmarkIndex pr + 1 else currentLandmarkIndex pr)))"
  using markVisited_tour(1)[OF assms, of ident]
    fold_markVisited_off_sequence[OF assms, of idents]
    step_tour[OF assms, of ev env]
    run_tour[OF assms, of evs env]
    markLandmarkVisited_index[of t tour pr browser now ident]
  by blast

theorem tourIndex_advances_only_in_sequence_witness:
  "activeTour touring = Some demoTour
   \<and> tourIndex touring = 0
   \<and> tourIndex (markVisited ''A'' touring) = 1
   \<and> tourIndex (markVisited ''B'' touring) = 0
   \<and> tourIndex (fold markVisited [''B'', ''C'', ''B''] touring) = 0
   \<and> keepsTour ExplorePending
   \<and> tourIndex (step demoEnv ExplorePending touring) = 0
   \<and> 0 \<le> tourIndex (run demoEnv [MarkVisited ''B'', MarkVisited ''A'', PauseWalk] touring)
   \<and> tourIndex (run demoEnv [MarkVisited ''B'', MarkVisited ''A'', PauseWalk] touring) \<le> 3
   \<and> ts_activeTour demoTourService = Some demoTour
   \<and> (\<exists>pr'. ts_progress (markLandmarkVisited True ''2026-01-01T10:05:00.000Z'' ''A'' demoTourService)
               = Some pr' \<and> currentLandmarkIndex pr' = 1)
   \<and> (\<exists>pr'. ts_progress (markLandmarkVisited True ''2026-01-01T10:05:00.000Z'' ''C'' demoTourService)
               = Some pr' \<and> currentLandmarkIndex pr' = 0)"
proof -
  have a: "activeTour touring = Some demoTour" by (rule touring_fields)
  have e: "elemAt (landmarkIds demoTour) 0 = Some ''A''"
    by (simp add: elemAt_def demoTour_def)
  have t: "ts_activeTour demoTourService = Some demoTour"
    "ts_progress demoTourService = Some demoProgress"
    by (simp_all add: demoTourService_def)
  have i: "currentLandmarkIndex demoProgress = 0" by (simp add: demoProgress_def)
  note w1 = tourIndex_advances_only_in_sequence [OF a, of "''A''" "[''B'', ''C'', ''B'']"
      ExplorePending demoEnv "[MarkVisited ''B'', MarkVisited ''A'', PauseWalk]" demoTourService
      demoProgress True "''2026-01-01T10:05:00.000Z''"]
  note w2 = tourIndex_advances_only_in_sequence [OF a, of "''B''" "[]"
      ExplorePending demoEnv "[]" demoTourService demoProgress True "[]"]
  note w3 = tourIndex_advances_only_in_sequence [OF a, of "''C''" "[]"
      ExplorePending demoEnv "[]" demoTourService demoProgress True "''2026-01-01T10:05:00.000Z''"]
  show ?thesis
    using w1 w2 w3 a e t i by (simp add: touring_fields)
qed

text \<open>
  C7 at distance zero. The engine is unpaused with no pending landmark and stands exactly on
  the only candidate: the selection returns that candidate with distance 0, which is within
  the 30 m threshold, and \<open>checkProximity\<close> returns none and leaves the state unchanged.
\<close>

theorem checkProximity_distance_zero:
  "\<not> isPaused walking \<and> pendingLandmark walking = None
   \<and> getNextLandmark demoEnv walking [landmarkNorth ''A'' 0 None]
       = Some (withScore demoEnv origin (landmarkNorth ''A'' 0 None))
   \<and> sl_distance (withScore demoEnv origin (landmarkNorth ''A'' 0 None)) = Num 0
   \<and> checkProximity demoEnv walking [landmarkNorth ''A'' 0 None] = (None, walking)"
proof -
  have g: "getNextLandmark demoEnv walking [landmarkNorth ''A'' 0 None]
       = Some (withScore demoEnv origin (landmarkNorth ''A'' 0 None))"
    by (rule getNextLandmark_single) (simp_all add: walking_fields)
  have d: "sl_distance (withScore demoEnv origin (landmarkNorth ''A'' 0 None)) = Num 0"
    by (simp add: demo_scored)
  show ?thesis
    using g d by (simp add: walking_fields checkProximity_some [OF walking_fields(5) walking_fields(6) g])
qed

text \<open>
  C8. Without the location capability (no browser platform, or no \<open>navigator.geolocation\<close>)
  \<open>startWalk\<close> returns false and the engine state, watch handle included, is the one it
  was called with; the model has no exceptional exit. With the capability it returns true.
\<close>

theorem startWalk_capability:
  "(\<not> isBrowser env \<or> \<not> hasGeolocation env \<longrightarrow> startWalk env s = (False, s))
   \<and> (isBrowser env \<and> hasGeolocation env \<longrightarrow> fst (startWalk env s) = True)"
  by (simp add: startWalk_def)

theorem startWalk_capability_witness:
  "\<not> hasGeolocation (demoEnv\<lparr> hasGeolocation := False \<rparr>)
   \<and> startWalk (demoEnv\<lparr> hasGeolocation := False \<rparr>) walking = (False, walking)
   \<and> isBrowser demoEnv \<and> hasGeolocation demoEnv \<and> fst (startWalk demoEnv walking) = True"
  using startWalk_capability [of "demoEnv\<lparr> hasGeolocation := False \<rparr>" walking]
    startWalk_capability [of demoEnv walking]
  by (simp add: demoEnv_def)

text \<open>
  C9. A successful \<open>startWalk\<close>, alone or inside \<open>startTourWalk\<close>, leaves \<open>visitedIds\<close> and
  \<open>skippedIds\<close> empty and \<open>pendingLandmark\<close> unset. After stopping and starting again no
  candidate is filtered out, and with the last known location a single candidate is
  returned by \<open>getNextLandmark\<close> whatever the earlier walk recorded about it.
\<close>

theorem startWalk_forgets_session:
  assumes "isBrowser env" and "hasGeolocation env"
  shows "fst (startWalk env s)
    \<and> visitedIds (snd (startWalk env s)) = {}
    \<and> skippedIds (snd (startWalk env s)) = {}
    \<and> pendingLandmark (snd (startWalk env s)) = None
    \<and> fst (startTourWalk env tour preview s)
    \<and> visitedIds (snd (startTourWalk env tour preview s)) = {}
    \<and> skippedIds (snd (startTourWalk env tour preview s)) = {}
    \<and> pendingLandmark (snd (startTourWalk env tour preview s)) = None
    \<and> available (snd (startWalk env (stopWalk env s))) landmarks = landmarks
    \<and> (\<forall>loc. currentLocation s = Some loc \<longrightarrow>
          getNextLandmark env (snd (startWalk env (stopWalk env s))) [l] = Some (withScore env loc l))"
  using assms
  by (simp add: startWalk_def startTourWalk_def stopWalk_def available_def Let_def
      getNextLandmark_def withScores_def sortBy_def)

theorem startWalk_forgets_session_witness:
  "isBrowser demoEnv \<and> hasGeolocation demoEnv
   \<and> ''A'' \<in> visitedIds explored
   \<and> getNextLandmark demoEnv explored [landmarkNorth ''A'' 20 None] = None
   \<and> currentLocation explored = Some origin
   \<and> getNextLandmark demoEnv (snd (startWalk demoEnv (stopWalk demoEnv explored)))
        [landmarkNorth ''A'' 20 None]
       = Some (withScore demoEnv origin (landmarkNorth ''A'' 20 None))"
proof -
  have e: "isBrowser demoEnv" "hasGeolocation demoEnv" by (simp_all add: demoEnv_def)
  have l: "currentLocation explored = Some origin" by (simp add: explored_eq walking_fields)
  have h: "getNextLandmark demoEnv explored [landmarkNorth ''A'' 20 None] = None"
    by (rule getNextLandmark_single_hidden) (simp add: explored_eq landmarkNorth_def)
  show ?thesis
    using startWalk_forgets_session [OF e, of explored demoTour True "[]" "landmarkNorth ''A'' 20 None"] e l h
    by (simp add: explored_eq)
qed

text \<open>
  C10. Without a GPS fix (\<open>currentLocation\<close> unset) \<open>getNextLandmark\<close> returns none for
  every candidate list, whatever the candidates, the session sets and the collaborators are:
  nothing is filtered, scored or ranked.
\<close>

theorem getNextLandmark_no_location:
  assumes "currentLocation s = None"
  shows "getNextLandmark env s landmarks = None"
  using assms by (simp add: getNextLandmark_def)

theorem getNextLandmark_no_location_witness:
  "currentLocation initialWalkState = None
   \<and> getNextLandmark demoEnv initialWalkState [landmarkNorth ''A'' 10 None] = None"
  using getNextLandmark_no_location [of initialWalkState demoEnv "[landmarkNorth ''A'' 10 None]"]
  by (simp add: initialWalkState_def)

end
